theory Spec2Isabelle
  imports Complex_Main
begin

section \<open>Seller monitoring: crawl, diff, notify, persist\<close>

text \<open>
  A shallow embedding of the monitoring service: the cycle \<open>monitorSellers\<close> of the
  server, the crawler \<open>utils/scraper.js\<close>, the notification sender
  \<open>sendWithRateLimit\<close> and the seller store \<open>utils/sellerManager.js\<close>.

  A JavaScript number is a real, \<open>NaN\<close> or one of the two infinities; arithmetic on
  finite numbers is exact (the rounding of doubles is not modelled). A string is the list
  of its code units, taken below 256 (the Latin-1 range): a text with a code unit above
  255 is outside the model. Time is a clock in milliseconds: the waits of the program and
  the time the environment says a page load took advance it, and nothing else takes
  time.
\<close>

subsection \<open>Numbers and strings\<close>

datatype jsnum = NaN | NegInf | Num real | PosInf

text \<open>\<open>-a\<close>, \<open>a > b\<close>, \<open>a <= b\<close>, \<open>a * b\<close>, \<open>a + b\<close>, \<open>a - b\<close> and
  \<open>a / d\<close> on numbers: every comparison with \<open>NaN\<close> is false, every operation on it
  is \<open>NaN\<close>, and so are \<open>Infinity * 0\<close> and \<open>Infinity - Infinity\<close>.\<close>

fun js_neg :: "jsnum \<Rightarrow> jsnum" where
  "js_neg (Num a) = Num (- a)"
| "js_neg PosInf = NegInf"
| "js_neg NegInf = PosInf"
| "js_neg NaN = NaN"

fun js_gt :: "jsnum \<Rightarrow> jsnum \<Rightarrow> bool" where
  "js_gt (Num a) (Num b) = (a > b)"
| "js_gt PosInf (Num b) = True"
| "js_gt PosInf NegInf = True"
| "js_gt (Num a) NegInf = True"
| "js_gt _ _ = False"

fun js_le :: "jsnum \<Rightarrow> jsnum \<Rightarrow> bool" where
  "js_le (Num a) (Num b) = (a \<le> b)"
| "js_le NaN _ = False"
| "js_le _ NaN = False"
| "js_le NegInf _ = True"
| "js_le _ PosInf = True"
| "js_le _ _ = False"

fun js_mul :: "jsnum \<Rightarrow> jsnum \<Rightarrow> jsnum" where
  "js_mul (Num a) (Num b) = Num (a * b)"
| "js_mul NaN _ = NaN"
| "js_mul _ NaN = NaN"
| "js_mul (Num a) PosInf = (if a = 0 then NaN else if a > 0 then PosInf else NegInf)"
| "js_mul (Num a) NegInf = (if a = 0 then NaN else if a > 0 then NegInf else PosInf)"
| "js_mul PosInf (Num b) = (if b = 0 then NaN else if b > 0 then PosInf else NegInf)"
| "js_mul NegInf (Num b) = (if b = 0 then NaN else if b > 0 then NegInf else PosInf)"
| "js_mul PosInf PosInf = PosInf"
| "js_mul NegInf NegInf = PosInf"
| "js_mul PosInf NegInf = NegInf"
| "js_mul NegInf PosInf = NegInf"

fun js_add :: "jsnum \<Rightarrow> jsnum \<Rightarrow> jsnum" where
  "js_add (Num a) (Num b) = Num (a + b)"
| "js_add NaN _ = NaN"
| "js_add _ NaN = NaN"
| "js_add PosInf NegInf = NaN"
| "js_add NegInf PosInf = NaN"
| "js_add PosInf _ = PosInf"
| "js_add _ PosInf = PosInf"
| "js_add NegInf _ = NegInf"
| "js_add _ NegInf = NegInf"

definition js_sub :: "jsnum \<Rightarrow> jsnum \<Rightarrow> jsnum" where
  "js_sub a b = js_add a (js_neg b)"

text \<open>Division by a positive constant.\<close>

fun js_div :: "jsnum \<Rightarrow> real \<Rightarrow> jsnum" where
  "js_div (Num a) d = Num (a / d)"
| "js_div PosInf d = PosInf"
| "js_div NegInf d = NegInf"
| "js_div NaN d = NaN"

text \<open>\<open>String.prototype.includes\<close> and \<open>startsWith\<close>.\<close>

fun startsWith :: "string \<Rightarrow> string \<Rightarrow> bool" where
  "startsWith s [] = True"
| "startsWith [] (p # ps) = False"
| "startsWith (c # cs) (p # ps) = (c = p \<and> startsWith cs ps)"

fun str_includes :: "string \<Rightarrow> string \<Rightarrow> bool" where
  "str_includes [] p = (p = [])"
| "str_includes (c # cs) p = (startsWith (c # cs) p \<or> str_includes cs p)"

text \<open>A string is truthy when it is not empty; \<open>undefined\<close> and \<open>null\<close> are
  \<open>None\<close> and falsy.\<close>

fun truthy :: "string option \<Rightarrow> bool" where
  "truthy None = False"
| "truthy (Some s) = (s \<noteq> [])"

text \<open>\<open>a || b\<close> on possibly undefined strings.\<close>

definition js_or :: "string option \<Rightarrow> string option \<Rightarrow> string option" where
  "js_or a b = (if truthy a then a else b)"

subsection \<open>Items and the diff against the known ids\<close>

text \<open>The object the crawler pushes for a listing or a sold item; \<open>listedDate\<close> is
  set on listings only and \<open>soldDate\<close> on sold items only.\<close>

record item =
  itemId :: string
  title :: string
  link :: string
  price :: string
  sellerUsername :: "string option"
  storeName :: string
  imageUrl :: "string option"
  listedDate :: "string option"
  soldDate :: "string option"

text \<open>\<open>seller.knownListings || []\<close>: the stored array, or the empty one when the field
  is undefined.\<close>

definition orEmpty :: "string list option \<Rightarrow> string list" where
  "orEmpty known = (case known of None \<Rightarrow> [] | Some ids \<Rightarrow> ids)"

text \<open>
  \<^verbatim>\<open>const knownListingIds = new Set(seller.knownListings || []);
const newListings = listings.filter((listing) => !knownListingIds.has(listing.itemId));\<close>
\<close>

definition newListings :: "string list option \<Rightarrow> item list \<Rightarrow> item list" where
  "newListings known listings =
     filter (\<lambda>listing. itemId listing \<notin> set (orEmpty known)) listings"

text \<open>
  \<^verbatim>\<open>const updatedKnownListings = [...(seller.knownListings || []), ...newListings.map((l) => l.itemId)];\<close>
\<close>

definition updatedKnownListings :: "string list option \<Rightarrow> item list \<Rightarrow> string list" where
  "updatedKnownListings known new = orEmpty known @ map itemId new"

text \<open>The sold path repeats both steps on \<open>seller.knownSoldItems\<close> and
  \<open>soldData.soldItems\<close>.\<close>

definition newSoldItems :: "string list option \<Rightarrow> item list \<Rightarrow> item list" where
  "newSoldItems known soldItems =
     filter (\<lambda>item. itemId item \<notin> set (orEmpty known)) soldItems"

definition updatedKnownSoldItems :: "string list option \<Rightarrow> item list \<Rightarrow> string list" where
  "updatedKnownSoldItems known new = orEmpty known @ map itemId new"

subsection \<open>The seller store and the world\<close>

text \<open>A record of \<open>sellers.json\<close>. Fields that may be missing or \<open>null\<close> in the
  file are options; the two \<open>lastChecked\<close> stamps stand for the ISO strings of the
  clock value they hold.\<close>

record seller =
  s_storeName :: string
  s_ssn :: "string option"
  s_username :: "string option"
  s_type :: string
  lastCheckedListings :: "real option"
  lastCheckedSold :: "real option"
  knownListings :: "string list option"
  knownSoldItems :: "string list option"

text \<open>
  The state the service reads and writes: the wall clock in milliseconds
  (\<open>Date.now()\<close>), the module-level \<open>rateLimitState\<close> map of the webhook sender, the
  contents of \<open>sellers.json\<close>, whether a write of that file succeeds, and the requests
  sent so far (newest first: destination and time of each \<open>axios.post\<close>).
\<close>

record world =
  clock :: real
  rateLimitState :: "string \<Rightarrow> jsnum option"
  sellersFile :: "seller list"
  writable :: bool
  requests :: "(string \<times> real) list"

text \<open>\<open>await sleep(ms)\<close>, \<open>setTimeout(resolve, ms)\<close> on Node: a delay that is not
  between 1 and \<open>TIMEOUT_MAX = 2^31 - 1\<close>, \<open>NaN\<close> included, is set to 1.\<close>

fun sleep :: "jsnum \<Rightarrow> world \<Rightarrow> world" where
  "sleep (Num ms) w = w\<lparr>clock := clock w + (if 1 \<le> ms \<and> ms \<le> 2147483647 then ms else 1)\<rparr>"
| "sleep NaN w = w\<lparr>clock := clock w + 1\<rparr>"
| "sleep PosInf w = w\<lparr>clock := clock w + 1\<rparr>"
| "sleep NegInf w = w\<lparr>clock := clock w + 1\<rparr>"

text \<open>The passing of \<open>t\<close> milliseconds: \<open>page.waitForTimeout(t)\<close>, or the time a page
  load took.\<close>

definition elapse :: "real \<Rightarrow> world \<Rightarrow> world" where
  "elapse t w = w\<lparr>clock := clock w + max 0 t\<rparr>"

subsection \<open>The webhook sender: \<open>sendWithRateLimit\<close>\<close>

text \<open>
  What \<open>sendFunction()\<close> (an \<open>axios.post\<close>) can do: resolve, or reject with an
  error whose \<open>response\<close> is undefined (no answer from the network) or carries the
  status, the \<open>retry-after\<close> header (a string when present) and \<open>data.retry_after\<close>
  of the body. A body value is a JSON number, a string, \<open>true\<close>, or an array or object
  (kept as the string \<open>String(v)\<close> that the coercion to a number goes through); a missing
  field, \<open>null\<close> and \<open>false\<close> are all \<open>None\<close>: they are falsy and read no further.
\<close>

datatype directive = DNum jsnum | DStr string | DTrue | DObject string

record response =
  status :: nat
  retry_after_header :: "string option"
  retry_after_data :: "directive option"

datatype outcome = Resolved | Rejected "response option"

text \<open>
  \<^verbatim>\<open>const retryAfter = error.response.headers["retry-after"] || error.response.data?.retry_after;\<close>
\<close>

definition retryAfter :: "response \<Rightarrow> directive option" where
  "retryAfter r =
     (if truthy (retry_after_header r) then map_option DStr (retry_after_header r)
      else retry_after_data r)"

text \<open>The test \<open>if (retryAfter)\<close>: the numbers 0 and \<open>NaN\<close> and the empty string are
  falsy.\<close>

fun truthyD :: "directive \<Rightarrow> bool" where
  "truthyD (DNum n) = (n \<noteq> Num 0 \<and> n \<noteq> NaN)"
| "truthyD (DStr s) = (s \<noteq> [])"
| "truthyD DTrue = True"
| "truthyD (DObject s) = True"

text \<open>The coercion to a number in \<open>retryAfter * 1000\<close>. How a string reads as a number is
  the language's \<open>StringToNumber\<close>, a parameter here.\<close>

fun toNumberD :: "(string \<Rightarrow> jsnum) \<Rightarrow> directive \<Rightarrow> jsnum" where
  "toNumberD toNum (DNum n) = n"
| "toNumberD toNum (DStr s) = toNum s"
| "toNumberD toNum DTrue = Num 1"
| "toNumberD toNum (DObject s) = toNum s"

text \<open>
  \<^verbatim>\<open>if (retryAfter) {
  waitTime = typeof retryAfter === "number" && retryAfter > 1000 ? retryAfter : retryAfter * 1000;
} else {
  waitTime = Math.min(30000, Math.pow(2, attempt) * 1000);
}\<close>
\<close>

fun rateLimitWait :: "(string \<Rightarrow> jsnum) \<Rightarrow> directive option \<Rightarrow> nat \<Rightarrow> jsnum" where
  "rateLimitWait toNum None attempt = Num (min 30000 (2 ^ attempt * 1000))"
| "rateLimitWait toNum (Some d) attempt =
     (if truthyD d then
        (case d of
           DNum n \<Rightarrow> if js_gt n (Num 1000) then n else js_mul n (Num 1000)
         | _ \<Rightarrow> js_mul (toNumberD toNum d) (Num 1000))
      else Num (min 30000 (2 ^ attempt * 1000)))"

text \<open>
  \<^verbatim>\<open>const state = rateLimitState.get(webhookUrl);
if (state && state.resetAt > Date.now()) { await sleep(state.resetAt - Date.now()); }\<close>
\<close>

definition waitForReset :: "string \<Rightarrow> world \<Rightarrow> world" where
  "waitForReset webhookUrl w =
     (case rateLimitState w webhookUrl of
        None \<Rightarrow> w
      | Some resetAt \<Rightarrow>
          if js_gt resetAt (Num (clock w)) then sleep (js_sub resetAt (Num (clock w))) w
          else w)"

text \<open>\<open>error.response && error.response.status === 429\<close> and
  \<open>error.response?.status >= 500\<close>.\<close>

fun is429 :: "response option \<Rightarrow> bool" where
  "is429 None = False"
| "is429 (Some r) = (status r = 429)"

fun isServerError :: "response option \<Rightarrow> bool" where
  "isServerError None = False"
| "isServerError (Some r) = (status r \<ge> 500)"

text \<open>One pass through the body of the \<open>for\<close> loop: it returns from the function
  or goes on to the next attempt (\<open>continue\<close>).\<close>

datatype pass = Return bool world | Continue world

definition attemptOnce ::
  "(string \<Rightarrow> jsnum) \<Rightarrow> string \<Rightarrow> outcome \<Rightarrow> nat \<Rightarrow> nat \<Rightarrow> world \<Rightarrow> pass" where
  "attemptOnce toNum webhookUrl result maxRetries attempt w =
     (let w0 = waitForReset webhookUrl w;
          w1 = w0\<lparr>requests := (webhookUrl, clock w0) # requests w0\<rparr>
      in case result of
           Resolved \<Rightarrow> Return True (w1\<lparr>rateLimitState := (rateLimitState w1)(webhookUrl := None)\<rparr>)
         | Rejected resp \<Rightarrow>
             (let other =
                    (if attempt < maxRetries - 1 \<and> isServerError resp then
                       Continue (sleep (Num (min 10000 (2 ^ attempt * 1000))) w1)
                     else Return False w1)
              in case resp of
                   None \<Rightarrow> other
                 | Some r \<Rightarrow>
                     if status r = 429 then
                       (let waitTime = rateLimitWait toNum (retryAfter r) attempt;
                            resetAt = js_add (Num (clock w1)) waitTime;
                            w2 = w1\<lparr>rateLimitState := (rateLimitState w1)(webhookUrl \<mapsto> resetAt)\<rparr>
                        in if attempt < maxRetries - 1 then Continue (sleep waitTime w2)
                           else Return False w2)
                     else other))"

text \<open>The world a pass leaves behind.\<close>

fun pass_world :: "pass \<Rightarrow> world" where
  "pass_world (Return ok w) = w"
| "pass_world (Continue w) = w"

text \<open>
  \<^verbatim>\<open>for (let attempt = 0; attempt < maxRetries; attempt++) { ... }
return false;\<close>
  \<open>send attempt\<close> is what the call of \<open>sendFunction\<close> in pass \<open>attempt\<close> does.
\<close>

function sendLoop ::
  "(string \<Rightarrow> jsnum) \<Rightarrow> string \<Rightarrow> (nat \<Rightarrow> outcome) \<Rightarrow> nat \<Rightarrow> nat \<Rightarrow> world \<Rightarrow> bool \<times> world" where
  "sendLoop toNum webhookUrl send maxRetries attempt w =
     (if attempt < maxRetries then
        (case attemptOnce toNum webhookUrl (send attempt) maxRetries attempt w of
           Return ok w' \<Rightarrow> (ok, w')
         | Continue w' \<Rightarrow> sendLoop toNum webhookUrl send maxRetries (attempt + 1) w')
      else (False, w))"
  by pat_completeness auto
termination
  by (relation "measure (\<lambda>(toNum, webhookUrl, send, maxRetries, attempt, w). maxRetries - attempt)")
    auto

declare sendLoop.simps [simp del]

definition sendWithRateLimit ::
  "(string \<Rightarrow> jsnum) \<Rightarrow> string \<Rightarrow> (nat \<Rightarrow> outcome) \<Rightarrow> nat \<Rightarrow> world \<Rightarrow> bool \<times> world" where
  "sendWithRateLimit toNum webhookUrl send maxRetries w =
     sendLoop toNum webhookUrl send maxRetries 0 w"


text \<open>An outcome after which the loop may go on: a rejection with status 429, or with
  a status of 500 and above.\<close>

definition retryable :: "outcome \<Rightarrow> bool" where
  "retryable result =
     (case result of Resolved \<Rightarrow> False | Rejected resp \<Rightarrow> is429 resp \<or> isServerError resp)"

text \<open>The number of passes the loop makes from pass \<open>attempt\<close> on, read off the
  outcomes alone; \<open>sendLoop\<close> is shown below to send exactly that many requests.\<close>

function passes :: "(nat \<Rightarrow> outcome) \<Rightarrow> nat \<Rightarrow> nat \<Rightarrow> nat" where
  "passes send maxRetries attempt =
     (if attempt < maxRetries then
        (if retryable (send attempt) \<and> Suc attempt < maxRetries
         then Suc (passes send maxRetries (Suc attempt)) else 1)
      else 0)"
  by pat_completeness auto
termination
  by (relation "measure (\<lambda>(send, maxRetries, attempt). maxRetries - attempt)") auto

declare passes.simps [simp del]

subsection \<open>The crawler: retries\<close>

datatype error = Error string

text \<open>
  \<^verbatim>\<open>async function retryOperation(fn, maxRetries = 3, delayMs = 5000) {
  for (let attempt = 1; attempt <= maxRetries; attempt++) {
    try { return await fn(); }
    catch (error) {
      if (attempt === maxRetries) { throw error; }
      await new Promise((resolve) => setTimeout(resolve, delayMs));
    }
  }
}\<close>
  \<open>fn attempt w\<close> is what the call of \<open>fn\<close> in pass \<open>attempt\<close> does in world \<open>w\<close>:
  it throws (\<open>Inl\<close>) or returns a value, and leaves a world. A loop that runs out
  without a call (only when \<open>maxRetries < 1\<close>) returns \<open>undefined\<close>, here \<open>Inr None\<close>.
\<close>

function retryLoop ::
  "(nat \<Rightarrow> world \<Rightarrow> (error + 'a) \<times> world) \<Rightarrow> nat \<Rightarrow> real \<Rightarrow> nat \<Rightarrow> world
     \<Rightarrow> (error + 'a option) \<times> world" where
  "retryLoop fn maxRetries delayMs attempt w =
     (if attempt \<le> maxRetries then
        (case fn attempt w of
           (Inr v, w') \<Rightarrow> (Inr (Some v), w')
         | (Inl err, w') \<Rightarrow>
             if attempt = maxRetries then (Inl err, w')
             else retryLoop fn maxRetries delayMs (attempt + 1) (sleep (Num delayMs) w'))
      else (Inr None, w))"
  by pat_completeness auto
termination
  by (relation "measure (\<lambda>(fn, maxRetries, delayMs, attempt, w). Suc maxRetries - attempt)") auto

declare retryLoop.simps [simp del]

definition retryOperation ::
  "(nat \<Rightarrow> world \<Rightarrow> (error + 'a) \<times> world) \<Rightarrow> nat \<Rightarrow> real \<Rightarrow> world
     \<Rightarrow> (error + 'a option) \<times> world" where
  "retryOperation fn maxRetries delayMs w = retryLoop fn maxRetries delayMs 1 w"

subsection \<open>The crawler: sold items\<close>

text \<open>
  What the selectors of the page loop read from one \<open>.s-item, .s-card\<close> element: the
  title after the chain of fallbacks, the \<open>href\<close> found (undefined when none), the
  price, the image source, the trimmed text of \<open>.su-styled-text.positive.default\<close> and
  the whole text of the element.
\<close>

record card =
  c_title :: string
  c_link :: "string option"
  c_price :: string
  c_imageUrl :: "string option"
  c_soldDateText :: string
  c_text :: string

text \<open>A result page and what the next-page control does: it is not visible, looking
  for it or clicking it throws, or the click leads to another page, whose load (the
  click and the wait for the network to go idle) takes the given time. A site is a finite
  chain of pages.\<close>

datatype site = Page "card list" nextButton
  and nextButton = NotVisible | Throws | Visible real site

definition digitChars :: string where
  "digitChars = ''0123456789''"

definition upperChars :: string where
  "upperChars = ''ABCDEFGHIJKLMNOPQRSTUVWXYZ''"

definition lowerChars :: string where
  "lowerChars = ''abcdefghijklmnopqrstuvwxyz''"

text \<open>The capital letters of the Latin-1 range above ASCII (U+00C0 to U+00DE without
  the multiplication sign U+00D7) and their small letters (U+00E0 to U+00FE without
  U+00F7).\<close>

definition latinUpperChars :: string where
  "latinUpperChars = [CHR 0xC0, CHR 0xC1, CHR 0xC2, CHR 0xC3, CHR 0xC4, CHR 0xC5, CHR 0xC6, CHR 0xC7, CHR 0xC8, CHR 0xC9, CHR 0xCA, CHR 0xCB, CHR 0xCC, CHR 0xCD, CHR 0xCE, CHR 0xCF, CHR 0xD0, CHR 0xD1, CHR 0xD2, CHR 0xD3, CHR 0xD4, CHR 0xD5, CHR 0xD6, CHR 0xD8, CHR 0xD9, CHR 0xDA, CHR 0xDB, CHR 0xDC, CHR 0xDD, CHR 0xDE]"

definition latinLowerChars :: string where
  "latinLowerChars = [CHR 0xE0, CHR 0xE1, CHR 0xE2, CHR 0xE3, CHR 0xE4, CHR 0xE5, CHR 0xE6, CHR 0xE7, CHR 0xE8, CHR 0xE9, CHR 0xEA, CHR 0xEB, CHR 0xEC, CHR 0xED, CHR 0xEE, CHR 0xEF, CHR 0xF0, CHR 0xF1, CHR 0xF2, CHR 0xF3, CHR 0xF4, CHR 0xF5, CHR 0xF6, CHR 0xF8, CHR 0xF9, CHR 0xFA, CHR 0xFB, CHR 0xFC, CHR 0xFD, CHR 0xFE]"

text \<open>The classes \<open>\d\<close>, \<open>[A-Za-z]\<close> and \<open>\s\<close>; of the white space of \<open>\s\<close>, the
  code units below 256 are tab, line feed, vertical tab, form feed, carriage return,
  space and the no-break space U+00A0.\<close>

definition isDigit :: "char \<Rightarrow> bool" where
  "isDigit c = (c \<in> set digitChars)"

definition isAlpha :: "char \<Rightarrow> bool" where
  "isAlpha c = (c \<in> set upperChars \<or> c \<in> set lowerChars)"

definition isSpace :: "char \<Rightarrow> bool" where
  "isSpace c =
     (c \<in> set [CHR 0x09, CHR 0x0A, CHR 0x0B, CHR 0x0C, CHR 0x0D, CHR '' '', CHR 0xA0])"

text \<open>\<open>toLowerCase\<close> on code units below 256: the ASCII and the Latin-1 capital
  letters go to their small letters, every other code unit stays.\<close>

definition toLowerCase :: "string \<Rightarrow> string" where
  "toLowerCase s =
     map (\<lambda>c. case map_of (zip (upperChars @ latinUpperChars) (lowerChars @ latinLowerChars)) c of
                None \<Rightarrow> c
              | Some l \<Rightarrow> l) s"

text \<open>
  \<^verbatim>\<open>const match = url.match(/\/itm\/(\d+)/);
if (match) { return match[1]; }\<close>
  The leftmost \<open>/itm/\<close> that digits follow, and the longest run of digits there.
\<close>

fun matchItm :: "string \<Rightarrow> string option" where
  "matchItm [] = None"
| "matchItm (c # cs) =
     (if startsWith (c # cs) ''/itm/'' \<and> takeWhile isDigit (drop 5 (c # cs)) \<noteq> []
      then Some (takeWhile isDigit (drop 5 (c # cs)))
      else matchItm cs)"

text \<open>
  \<open>extractItemId\<close>. The second half of the function reads the query parameters
  \<open>_id\<close>, \<open>item\<close>, \<open>itm\<close> through the platform's \<open>URL\<close> class: \<open>queryItemId\<close> stands
  for that lookup (\<open>None\<close> when no parameter is set or the URL does not parse), and
  \<open>itemId || null\<close> turns an empty value into \<open>null\<close>.
\<close>

definition extractItemId :: "(string \<Rightarrow> string option) \<Rightarrow> string \<Rightarrow> string option" where
  "extractItemId queryItemId url =
     (if url = [] then None
      else case matchItm url of
             Some digits \<Rightarrow> Some digits
           | None \<Rightarrow> (if truthy (queryItemId url) then queryItemId url else None))"

text \<open>
  The callback of \<open>$(".s-item, .s-card").each\<close> in the page loop: \<open>None\<close> when the
  element is skipped, the pushed object otherwise.
  \<^verbatim>\<open>if (!soldDateText || !soldDateText.includes("Sold")) { return; }
if (link && !link.startsWith("http")) { link = `https://www.ebay.com${link}`; }
const itemId = link ? extractItemId(link) : null;
const soldText = $item.text().toLowerCase();
if (title && link && itemId && (soldText.includes("sold") || soldText.includes("ended"))) {
  pageItems.push({ itemId, title, link, price, sellerUsername: ssn, storeName: storeName,
                   imageUrl, soldDate: soldDateText });
}\<close>
\<close>

definition collectCard ::
  "(string \<Rightarrow> string option) \<Rightarrow> string \<Rightarrow> string option \<Rightarrow> card \<Rightarrow> item option" where
  "collectCard queryItemId storeName' ssn c =
     (if c_soldDateText c = [] \<or> \<not> str_includes (c_soldDateText c) ''Sold'' then None
      else
        (let link' = (case c_link c of
                        None \<Rightarrow> None
                      | Some l \<Rightarrow> if l \<noteq> [] \<and> \<not> startsWith l ''http''
                                  then Some (''https://www.ebay.com'' @ l) else Some l);
             itemId' = (case link' of
                          None \<Rightarrow> None
                        | Some l \<Rightarrow> if l \<noteq> [] then extractItemId queryItemId l else None);
             soldText = toLowerCase (c_text c)
         in case (link', itemId') of
              (Some l, Some i) \<Rightarrow>
                if c_title c \<noteq> [] \<and> l \<noteq> [] \<and> i \<noteq> []
                   \<and> (str_includes soldText ''sold'' \<or> str_includes soldText ''ended'')
                then Some \<lparr>itemId = i, title = c_title c, link = l,
                           price = c_price c, sellerUsername = ssn, storeName = storeName',
                           imageUrl = c_imageUrl c, listedDate = None,
                           soldDate = Some (c_soldDateText c)\<rparr>
                else None
            | _ \<Rightarrow> None))"

definition collectPage ::
  "(string \<Rightarrow> string option) \<Rightarrow> string \<Rightarrow> string option \<Rightarrow> card list \<Rightarrow> item list" where
  "collectPage queryItemId storeName' ssn cards =
     List.map_filter (collectCard queryItemId storeName' ssn) cards"


text \<open>
  \<open>item.soldDate.match(/Sold\s+([A-Za-z]+\s+\d+,\s+\d{4})/)\<close>, group 1. The
  classes that follow one another are disjoint, so from a given \<open>Sold\<close> there is one
  way to match: the longest run of each class. \<open>matchDate\<close> matches what follows
  \<open>Sold\<close>; \<open>dateMatch\<close> tries every position from the left.
\<close>

definition matchDate :: "string \<Rightarrow> string option" where
  "matchDate rest =
     (let ws1 = takeWhile isSpace rest; r1 = dropWhile isSpace rest;
          month = takeWhile isAlpha r1; r2 = dropWhile isAlpha r1;
          ws2 = takeWhile isSpace r2; r3 = dropWhile isSpace r2;
          day = takeWhile isDigit r3; r4 = dropWhile isDigit r3;
          r5 = drop 1 r4;
          ws3 = takeWhile isSpace r5; r6 = dropWhile isSpace r5;
          year = take 4 r6
      in if ws1 \<noteq> [] \<and> month \<noteq> [] \<and> ws2 \<noteq> [] \<and> day \<noteq> [] \<and> take 1 r4 = '',''
            \<and> ws3 \<noteq> [] \<and> length year = 4 \<and> list_all isDigit year
         then Some (month @ ws2 @ day @ '','' @ ws3 @ year)
         else None)"

fun dateMatch :: "string \<Rightarrow> string option" where
  "dateMatch [] = None"
| "dateMatch (c # cs) =
     (if startsWith (c # cs) ''Sold'' then
        (case matchDate (drop 4 (c # cs)) of
           Some d \<Rightarrow> Some d
         | None \<Rightarrow> dateMatch cs)
      else dateMatch cs)"

text \<open>
  The classification of one collected item. \<open>parseDate\<close> stands for
  \<open>new Date(dateMatch[1]).getTime()\<close>: how a string of this form is read is left to
  the engine, and a string it cannot read gives an invalid date, whose time is \<open>NaN\<close>;
  the constructor does not throw.
  \<^verbatim>\<open>let soldWithinTwoDays = false;
if (item.soldDate && item.soldDate.includes("Sold")) {
  try {
    const dateMatch = item.soldDate.match(/Sold\s+([A-Za-z]+\s+\d+,\s+\d{4})/);
    if (dateMatch) {
      const soldDate = new Date(dateMatch[1]);
      const currentDate = new Date();
      const diffTime = currentDate - soldDate;
      const diffDays = diffTime / (1000 * 60 * 60 * 24);
      soldWithinTwoDays = diffDays <= 2;
    } else { soldWithinTwoDays = true; }
  } catch (error) { soldWithinTwoDays = true; }
}\<close>
\<close>

definition soldWithinTwoDays :: "(string \<Rightarrow> jsnum) \<Rightarrow> real \<Rightarrow> item \<Rightarrow> bool" where
  "soldWithinTwoDays parseDate now item =
     (case soldDate item of
        None \<Rightarrow> False
      | Some text \<Rightarrow>
          if text \<noteq> [] \<and> str_includes text ''Sold'' then
            (case dateMatch text of
               Some d \<Rightarrow>
                 (let diffTime = js_sub (Num now) (parseDate d);
                      diffDays = js_div diffTime (1000 * 60 * 60 * 24)
                  in js_le diffDays (Num 2))
             | None \<Rightarrow> True)
          else False)"

text \<open>\<open>item.link.split("?")[0]\<close> and the object pushed on \<open>soldItems\<close>.\<close>

definition cleanItem :: "string \<Rightarrow> string option \<Rightarrow> item \<Rightarrow> item" where
  "cleanItem storeName' ssn item =
     \<lparr>itemId = itemId item, title = title item,
      link = takeWhile (\<lambda>c. c \<noteq> CHR ''?'') (link item),
      price = price item, sellerUsername = ssn, storeName = storeName',
      imageUrl = imageUrl item, listedDate = None, soldDate = soldDate item\<rparr>"

text \<open>
  The \<open>for\<close> loop over \<open>pageItems\<close>, from index \<open>i\<close> on: the first list is
  \<open>pageItems.slice(i)\<close>, so \<open>i === pageItems.length - 1\<close> is that its tail is empty.
  It returns \<open>soldItems\<close> and \<open>lastItemInRange\<close>.
\<close>

fun classifyItems ::
  "(string \<Rightarrow> jsnum) \<Rightarrow> real \<Rightarrow> string \<Rightarrow> string option \<Rightarrow> item list \<Rightarrow> item list \<Rightarrow> bool
     \<Rightarrow> item list \<times> bool" where
  "classifyItems parseDate now storeName' ssn [] soldItems lastItemInRange =
     (soldItems, lastItemInRange)"
| "classifyItems parseDate now storeName' ssn (item # rest) soldItems lastItemInRange =
     (if soldWithinTwoDays parseDate now item then
        classifyItems parseDate now storeName' ssn rest
          (soldItems @ [cleanItem storeName' ssn item])
          (if rest = [] then True else lastItemInRange)
      else
        classifyItems parseDate now storeName' ssn rest soldItems
          (if rest = [] then False else lastItemInRange))"

text \<open>What the service asks of the outside: the id in a link's query, the reading of
  a date, the reading of a string as a number, what a listings crawl attempt gives (the
  time the launch and \<open>page.goto\<close> took and the listings extracted, or an error
  thrown), what a sold crawl attempt finds (that time and the first page, or an error
  thrown), and what a post to a webhook does.\<close>

record env =
  queryItemId :: "string \<Rightarrow> string option"
  parseDate :: "string \<Rightarrow> jsnum"
  toNumber :: "string \<Rightarrow> jsnum"
  listingsPage :: "string \<Rightarrow> string option \<Rightarrow> nat \<Rightarrow> error + (real \<times> item list)"
  soldSite :: "string \<Rightarrow> string option \<Rightarrow> nat \<Rightarrow> error + (real \<times> site)"
  axiosPost :: "string \<Rightarrow> item \<Rightarrow> nat \<Rightarrow> outcome"

text \<open>
  The \<open>while (hasMorePages && shouldContinuePagination)\<close> loop, from the page
  loaded, in the world \<open>w\<close> in which that page is processed: \<open>new Date()\<close> in the
  classification of its items is the clock of \<open>w\<close>. It returns \<open>soldItems\<close>,
  \<open>pageNum\<close> (the number of pages scraped) and the world at the end.
  \<^verbatim>\<open>if (!lastItemInRange) { shouldContinuePagination = false; }
if (shouldContinuePagination) {
  try {
    if (await nextButton.isVisible({ timeout: 5000 })) { await nextButton.click(); ...; pageNum++; }
    else { hasMorePages = false; }
  } catch (error) { hasMorePages = false; }
}\<close>
\<close>

fun paginate ::
  "env \<Rightarrow> string \<Rightarrow> string option \<Rightarrow> site \<Rightarrow> item list \<Rightarrow> nat \<Rightarrow> world
     \<Rightarrow> item list \<times> nat \<times> world" where
  "paginate e storeName' ssn (Page cards nextButton) soldItems pageNum w =
     (let pageItems = collectPage (queryItemId e) storeName' ssn cards;
          (soldItems', lastItemInRange) =
             classifyItems (parseDate e) (clock w) storeName' ssn pageItems soldItems False
      in if \<not> lastItemInRange then (soldItems', pageNum, w)
         else (case nextButton of
                 Visible loadTime nextPage \<Rightarrow>
                   paginate e storeName' ssn nextPage soldItems' (pageNum + 1) (elapse loadTime w)
               | NotVisible \<Rightarrow> (soldItems', pageNum, w)
               | Throws \<Rightarrow> (soldItems', pageNum, w)))"

text \<open>
  One attempt of the sold crawl, and the wrapper with retries.
  \<^verbatim>\<open>await page.goto(url);
await page.waitForTimeout(10000); // Wait for page to fully load
...
return { sellerUsername: ssn, storeName: storeName, soldItems };\<close>
\<close>

definition getSellerSoldItemsInternal ::
  "env \<Rightarrow> string \<Rightarrow> string option \<Rightarrow> nat \<Rightarrow> world \<Rightarrow> (error + item list) \<times> world" where
  "getSellerSoldItemsInternal e storeName' ssn attempt w =
     (case soldSite e storeName' ssn attempt of
        Inl err \<Rightarrow> (Inl err, w)
      | Inr (loadTime, firstPage) \<Rightarrow>
          (let (soldItems, pageNum, w') =
                 paginate e storeName' ssn firstPage [] 1 (elapse 10000 (elapse loadTime w))
           in (Inr soldItems, w')))"

definition getSellerSoldItems ::
  "env \<Rightarrow> string \<Rightarrow> string option \<Rightarrow> world \<Rightarrow> (error + item list option) \<times> world" where
  "getSellerSoldItems e storeName' ssn w =
     retryOperation (getSellerSoldItemsInternal e storeName' ssn) 3 5000 w"

text \<open>
  One attempt of the listings crawl, with the extraction taken from the environment as a
  whole, and the wrapper with retries.
  \<^verbatim>\<open>await page.goto(url);
await page.waitForTimeout(8000); // Wait for page to fully load\<close>
\<close>

definition getSellerListingsInternal ::
  "env \<Rightarrow> string \<Rightarrow> string option \<Rightarrow> nat \<Rightarrow> world \<Rightarrow> (error + item list) \<times> world" where
  "getSellerListingsInternal e storeName' ssn attempt w =
     (case listingsPage e storeName' ssn attempt of
        Inl err \<Rightarrow> (Inl err, w)
      | Inr (loadTime, listings) \<Rightarrow> (Inr listings, elapse 8000 (elapse loadTime w)))"

definition getSellerListings ::
  "env \<Rightarrow> string \<Rightarrow> string option \<Rightarrow> world \<Rightarrow> (error + item list option) \<times> world" where
  "getSellerListings e storeName' ssn w =
     retryOperation (getSellerListingsInternal e storeName' ssn) 3 5000 w"


subsection \<open>The seller store: \<open>updateSeller\<close>\<close>

text \<open>\<open>loadSellers\<close> gives the array in the file; \<open>saveSellers\<close> writes it and
  answers whether the write succeeded (a failed write is caught and logged).\<close>

definition loadSellers :: "world \<Rightarrow> seller list" where
  "loadSellers w = sellersFile w"

definition saveSellers :: "seller list \<Rightarrow> world \<Rightarrow> bool \<times> world" where
  "saveSellers sellers w =
     (if writable w then (True, w\<lparr>sellersFile := sellers\<rparr>) else (False, w))"

definition getAllSellers :: "world \<Rightarrow> seller list" where
  "getAllSellers w = loadSellers w"

text \<open>\<open>Array.prototype.findIndex\<close>, with \<open>None\<close> for -1.\<close>

fun findIndex :: "('a \<Rightarrow> bool) \<Rightarrow> 'a list \<Rightarrow> nat option" where
  "findIndex P [] = None"
| "findIndex P (x # xs) = (if P x then Some 0 else map_option Suc (findIndex P xs))"

text \<open>
  \<^verbatim>\<open>const sellerIndex = sellers.findIndex(
  (s) => (s.ssn === ssn || s.username === ssn) && (type ? s.type === type : true));
if (sellerIndex === -1) { return { success: false, ... }; }
sellers[sellerIndex] = { ...sellers[sellerIndex], ...updates };
const saved = await saveSellers(sellers);\<close>
  The object \<open>updates\<close> is the function that overwrites its fields in a record; the
  result object is its \<open>success\<close> field.
\<close>

definition updateSeller ::
  "string option \<Rightarrow> (seller \<Rightarrow> seller) \<Rightarrow> string \<Rightarrow> world \<Rightarrow> bool \<times> world" where
  "updateSeller ssn updates type w =
     (let sellers = loadSellers w
      in case findIndex (\<lambda>s. (s_ssn s = ssn \<or> s_username s = ssn)
                              \<and> (if type \<noteq> [] then s_type s = type else True)) sellers of
           None \<Rightarrow> (False, w)
         | Some sellerIndex \<Rightarrow>
             saveSellers (sellers[sellerIndex := updates (sellers ! sellerIndex)]) w)"

subsection \<open>The monitoring cycle: \<open>monitorSellers\<close>\<close>

text \<open>\<open>sendNewListingWebhook\<close> and \<open>sendSoldItemWebhook\<close> build the embed and call
  \<open>sendWithRateLimit\<close> with the default of 5 for \<open>maxRetries\<close>.\<close>

definition sendNewListingWebhook :: "env \<Rightarrow> string \<Rightarrow> item \<Rightarrow> world \<Rightarrow> bool \<times> world" where
  "sendNewListingWebhook e webhookUrl listing w =
     sendWithRateLimit (toNumber e) webhookUrl (axiosPost e webhookUrl listing) 5 w"

definition sendSoldItemWebhook :: "env \<Rightarrow> string \<Rightarrow> item \<Rightarrow> world \<Rightarrow> bool \<times> world" where
  "sendSoldItemWebhook e webhookUrl item w =
     sendWithRateLimit (toNumber e) webhookUrl (axiosPost e webhookUrl item) 5 w"

text \<open>
  \<^verbatim>\<open>for (const listing of newListings) {
  const success = await webhooks.sendNewListingWebhook(webhookUrlListings, listing);
  await new Promise((resolve) => setTimeout(resolve, 2500));
}\<close>
  \<open>success\<close> is not read again.
\<close>

fun notifyListings :: "env \<Rightarrow> string \<Rightarrow> item list \<Rightarrow> world \<Rightarrow> world" where
  "notifyListings e webhookUrlListings [] w = w"
| "notifyListings e webhookUrlListings (listing # rest) w =
     (let (success, w') = sendNewListingWebhook e webhookUrlListings listing w
      in notifyListings e webhookUrlListings rest (sleep (Num 2500) w'))"

fun notifySoldItems :: "env \<Rightarrow> string \<Rightarrow> item list \<Rightarrow> world \<Rightarrow> world" where
  "notifySoldItems e webhookUrlSold [] w = w"
| "notifySoldItems e webhookUrlSold (item # rest) w =
     (let (success, w') = sendSoldItemWebhook e webhookUrlSold item w
      in notifySoldItems e webhookUrlSold rest (sleep (Num 2500) w'))"

text \<open>
  The body of the \<open>try\<close> for one listing seller: \<open>Inl\<close> when it throws (the crawl
  failed after its retries, or \<open>listings\<close> is undefined), \<open>Inr ()\<close> when it runs to its
  end.
  \<^verbatim>\<open>const ssn = seller.ssn || seller.username;
const listings = await scraper.getSellerListings(seller.storeName, ssn);
const knownListingIds = new Set(seller.knownListings || []);
const newListings = listings.filter((listing) => !knownListingIds.has(listing.itemId));
if (newListings.length > 0) {
  for (const listing of newListings) { ... }
  const updatedKnownListings = [...(seller.knownListings || []), ...newListings.map((l) => l.itemId)];
  await sellerManager.updateSeller(ssn,
    { knownListings: updatedKnownListings, lastCheckedListings: new Date().toISOString() },
    "listings");
}
await new Promise((resolve) => setTimeout(resolve, 5000));\<close>
\<close>

definition checkListingSeller ::
  "env \<Rightarrow> string \<Rightarrow> seller \<Rightarrow> world \<Rightarrow> (error + unit) \<times> world" where
  "checkListingSeller e webhookUrlListings seller w =
     (let ssn = js_or (s_ssn seller) (s_username seller)
      in case getSellerListings e (s_storeName seller) ssn w of
           (Inl err, w1) \<Rightarrow> (Inl err, w1)
         | (Inr None, w1) \<Rightarrow> (Inl (Error ''TypeError''), w1)
         | (Inr (Some listings), w1) \<Rightarrow>
             (let new = newListings (knownListings seller) listings;
                  w3 = (if new \<noteq> [] then
                          (let w2 = notifyListings e webhookUrlListings new w1
                           in snd (updateSeller ssn
                                 (\<lambda>s. s\<lparr>knownListings :=
                                            Some (updatedKnownListings (knownListings seller) new),
                                         lastCheckedListings := Some (clock w2)\<rparr>)
                                 ''listings'' w2))
                        else w1)
              in (Inr (), sleep (Num 5000) w3)))"

definition checkSoldSeller ::
  "env \<Rightarrow> string \<Rightarrow> seller \<Rightarrow> world \<Rightarrow> (error + unit) \<times> world" where
  "checkSoldSeller e webhookUrlSold seller w =
     (let ssn = js_or (s_ssn seller) (s_username seller)
      in case getSellerSoldItems e (s_storeName seller) ssn w of
           (Inl err, w1) \<Rightarrow> (Inl err, w1)
         | (Inr None, w1) \<Rightarrow> (Inl (Error ''TypeError''), w1)
         | (Inr (Some soldItems), w1) \<Rightarrow>
             (let new = newSoldItems (knownSoldItems seller) soldItems;
                  w3 = (if new \<noteq> [] then
                          (let w2 = notifySoldItems e webhookUrlSold new w1
                           in snd (updateSeller ssn
                                 (\<lambda>s. s\<lparr>knownSoldItems :=
                                            Some (updatedKnownSoldItems (knownSoldItems seller) new),
                                         lastCheckedSold := Some (clock w2)\<rparr>)
                                 ''sold'' w2))
                        else w1)
              in (Inr (), sleep (Num 5000) w3)))"

text \<open>The two \<open>for (const seller of ...)\<close> loops: the \<open>catch\<close> around the body logs
  the error and the loop goes on to the next seller.\<close>

fun monitorListingSellers :: "env \<Rightarrow> string \<Rightarrow> seller list \<Rightarrow> world \<Rightarrow> world" where
  "monitorListingSellers e webhookUrlListings [] w = w"
| "monitorListingSellers e webhookUrlListings (seller # rest) w =
     (case checkListingSeller e webhookUrlListings seller w of
        (Inl err, w') \<Rightarrow> monitorListingSellers e webhookUrlListings rest w'
      | (Inr u, w') \<Rightarrow> monitorListingSellers e webhookUrlListings rest w')"

fun monitorSoldSellers :: "env \<Rightarrow> string \<Rightarrow> seller list \<Rightarrow> world \<Rightarrow> world" where
  "monitorSoldSellers e webhookUrlSold [] w = w"
| "monitorSoldSellers e webhookUrlSold (seller # rest) w =
     (case checkSoldSeller e webhookUrlSold seller w of
        (Inl err, w') \<Rightarrow> monitorSoldSellers e webhookUrlSold rest w'
      | (Inr u, w') \<Rightarrow> monitorSoldSellers e webhookUrlSold rest w')"

text \<open>The configuration the cycle reads: the flag \<open>monitoringActive\<close> and the two
  environment variables, empty when unset.\<close>

record config =
  monitoringActive :: bool
  webhookUrlListings :: string
  webhookUrlSold :: string

definition monitorSellers :: "config \<Rightarrow> env \<Rightarrow> world \<Rightarrow> world" where
  "monitorSellers cfg e w =
     (if \<not> monitoringActive cfg then w
      else
        (let sellers = getAllSellers w
         in if sellers = [] then w
            else if webhookUrlListings cfg = [] \<and> webhookUrlSold cfg = [] then w
            else
              (let listingSellers = filter (\<lambda>s. s_type s = ''listings'') sellers;
                   soldSellers = filter (\<lambda>s. s_type s = ''sold'') sellers;
                   w1 = (if webhookUrlListings cfg \<noteq> [] \<and> listingSellers \<noteq> []
                         then monitorListingSellers e (webhookUrlListings cfg) listingSellers w
                         else w)
               in if webhookUrlSold cfg \<noteq> [] \<and> soldSellers \<noteq> []
                  then monitorSoldSellers e (webhookUrlSold cfg) soldSellers w1
                  else w1)))"


subsection \<open>The scheduler\<close>

text \<open>
  \<^verbatim>\<open>function triggerMonitoringRestart() {
  setTimeout(() => { monitorSellers(); }, 2000);
}
function startMonitoring() {
  monitorSellers();
  monitoringIntervalId = setInterval(() => { monitorSellers(); }, MONITOR_INTERVAL);
}\<close>
  \<open>monitorSellers\<close> is an \<open>async\<close> function: a call of it runs up to its first
  \<open>await\<close> and gives control back to the event loop, which may run a timer callback
  before the call has finished. The state of the scheduler is the flag
  \<open>monitoringActive\<close>, whether the interval is set, the number of timeouts of
  \<open>triggerMonitoringRestart\<close> that have not fired yet, and the number of calls of
  \<open>monitorSellers\<close> that have passed the test of the flag and have not finished. The
  events are the two functions, the firing of a timeout or of the interval, and the end
  of a call.
\<close>

record scheduler =
  active :: bool
  intervalSet :: bool
  timeouts :: nat
  inProgress :: nat

datatype event = StartMonitoring | TriggerMonitoringRestart | TimeoutFires | IntervalFires | CycleEnds

text \<open>\<open>if (!monitoringActive) return;\<close> is the only test a call makes before it
  starts a cycle.\<close>

definition callMonitorSellers :: "scheduler \<Rightarrow> scheduler" where
  "callMonitorSellers s = (if \<not> active s then s else s\<lparr>inProgress := inProgress s + 1\<rparr>)"

fun fire :: "event \<Rightarrow> scheduler \<Rightarrow> scheduler" where
  "fire StartMonitoring s = (callMonitorSellers s)\<lparr>intervalSet := True\<rparr>"
| "fire TriggerMonitoringRestart s = s\<lparr>timeouts := timeouts s + 1\<rparr>"
| "fire TimeoutFires s =
     (if timeouts s = 0 then s else callMonitorSellers (s\<lparr>timeouts := timeouts s - 1\<rparr>))"
| "fire IntervalFires s = (if intervalSet s then callMonitorSellers s else s)"
| "fire CycleEnds s = (if inProgress s = 0 then s else s\<lparr>inProgress := inProgress s - 1\<rparr>)"

fun run :: "event list \<Rightarrow> scheduler \<Rightarrow> scheduler" where
  "run [] s = s"
| "run (ev # evs) s = run evs (fire ev s)"

subsection \<open>Concrete inputs\<close>

text \<open>The inputs at which the theorems below are evaluated.\<close>

definition world0 :: world where
  "world0 = \<lparr>clock = 0, rateLimitState = (\<lambda>u. None), sellersFile = [], writable = True,
              requests = []\<rparr>"

text \<open>A reading of strings as numbers that reads the string \<open>3000\<close> and no other.\<close>

definition readNumber :: "string \<Rightarrow> jsnum" where
  "readNumber s = (if s = ''3000'' then Num 3000 else NaN)"

text \<open>Five 429 answers: with a \<open>retry-after\<close> header of 3000, with a body
  \<open>retry_after\<close> of 3000, of 2 and of 0, and with neither.\<close>

definition headerResponse :: response where
  "headerResponse = \<lparr>status = 429, retry_after_header = Some ''3000'', retry_after_data = None\<rparr>"

definition bodyResponse :: response where
  "bodyResponse =
     \<lparr>status = 429, retry_after_header = None, retry_after_data = Some (DNum (Num 3000))\<rparr>"

definition secondsResponse :: response where
  "secondsResponse =
     \<lparr>status = 429, retry_after_header = None, retry_after_data = Some (DNum (Num 2))\<rparr>"

definition zeroResponse :: response where
  "zeroResponse =
     \<lparr>status = 429, retry_after_header = None, retry_after_data = Some (DNum (Num 0))\<rparr>"

definition bareResponse :: response where
  "bareResponse = \<lparr>status = 429, retry_after_header = None, retry_after_data = None\<rparr>"

text \<open>A destination that answers 429 with the header once and then accepts; one that
  answers 503, then 429 with a body \<open>retry_after\<close> of 2, then 404.\<close>

definition postHeader :: "nat \<Rightarrow> outcome" where
  "postHeader k = (if k = 0 then Rejected (Some headerResponse) else Resolved)"

definition postExample :: "nat \<Rightarrow> outcome" where
  "postExample k =
     (if k = 0 then
        Rejected (Some \<lparr>status = 503, retry_after_header = None, retry_after_data = None\<rparr>)
      else if k = 1 then Rejected (Some secondsResponse)
      else Rejected (Some \<lparr>status = 404, retry_after_header = None, retry_after_data = None\<rparr>))"

text \<open>Two listings, and five tracked sellers: Alice and Carol know item 111, Bob
  knows nothing, Dana is tracked for sold items and knows item 333, Erin is tracked for
  sold items under a user name only.\<close>

definition item111 :: item where
  "item111 = \<lparr>itemId = ''111'', title = ''Lamp'', link = ''https://www.ebay.com/itm/111'',
     price = ''$5.00'', sellerUsername = Some ''alice'', storeName = ''shop'', imageUrl = None,
     listedDate = None, soldDate = None\<rparr>"

definition item222 :: item where
  "item222 = \<lparr>itemId = ''222'', title = ''Desk'', link = ''https://www.ebay.com/itm/222'',
     price = ''$40.00'', sellerUsername = Some ''alice'', storeName = ''shop'', imageUrl = None,
     listedDate = None, soldDate = None\<rparr>"

definition sellerAlice :: seller where
  "sellerAlice = \<lparr>s_storeName = ''shop'', s_ssn = Some ''alice'', s_username = Some ''alice'',
     s_type = ''listings'', lastCheckedListings = None, lastCheckedSold = None,
     knownListings = Some [''111''], knownSoldItems = None\<rparr>"

definition sellerBob :: seller where
  "sellerBob = \<lparr>s_storeName = ''mart'', s_ssn = Some ''bob'', s_username = Some ''bob'',
     s_type = ''listings'', lastCheckedListings = None, lastCheckedSold = None,
     knownListings = Some [], knownSoldItems = None\<rparr>"

definition sellerCarol :: seller where
  "sellerCarol = \<lparr>s_storeName = ''shop'', s_ssn = Some ''carol'', s_username = Some ''carol'',
     s_type = ''listings'', lastCheckedListings = None, lastCheckedSold = None,
     knownListings = Some [''111''], knownSoldItems = None\<rparr>"

definition sellerDana :: seller where
  "sellerDana = \<lparr>s_storeName = ''shop'', s_ssn = Some ''dana'', s_username = Some ''dana'',
     s_type = ''sold'', lastCheckedListings = None, lastCheckedSold = None,
     knownListings = None, knownSoldItems = Some [''333'']\<rparr>"

definition sellerErin :: seller where
  "sellerErin = \<lparr>s_storeName = ''mart'', s_ssn = None, s_username = Some ''erin'',
     s_type = ''sold'', lastCheckedListings = None, lastCheckedSold = None,
     knownListings = None, knownSoldItems = None\<rparr>"

text \<open>An environment where the load of Alice's listings page takes 1.5 s and gives
  items 111 and 222, that of Carol's gives item 111, every other crawl attempt fails, and
  no post gets an answer.\<close>

definition envDown :: env where
  "envDown = \<lparr>queryItemId = (\<lambda>url. None), parseDate = (\<lambda>d. NaN), toNumber = readNumber,
     listingsPage = (\<lambda>store ssn attempt.
        if ssn = Some ''alice'' then Inr (1500, [item111, item222])
        else if ssn = Some ''carol'' then Inr (1500, [item111])
        else Inl (Error ''net::ERR_TIMED_OUT'')),
     soldSite = (\<lambda>store ssn attempt. Inl (Error ''net::ERR_TIMED_OUT'')),
     axiosPost = (\<lambda>url item attempt. Rejected None)\<rparr>"

definition cfgListings :: config where
  "cfgListings = \<lparr>monitoringActive = True, webhookUrlListings = ''hook'', webhookUrlSold = []\<rparr>"

text \<open>A card of a sold-items page, and a site of three pages whose loads after a click
  take 2 s: the last item of page 1 was sold on Nov 1, the last item of page 2 on
  Oct 1.\<close>

definition cardOf :: "string \<Rightarrow> string \<Rightarrow> card" where
  "cardOf ident sold = \<lparr>c_title = ''Lamp'', c_link = Some (''/itm/'' @ ident @ ''?hash=abc''),
     c_price = ''$5.00'', c_imageUrl = None, c_soldDateText = sold, c_text = ''Lamp '' @ sold\<rparr>"

definition soldPages :: site where
  "soldPages =
     Page [cardOf ''333'' ''Sold  Nov 2, 2025'', cardOf ''334'' ''Sold  Nov 1, 2025'']
       (Visible 2000
         (Page [cardOf ''335'' ''Sold  Nov 1, 2025'', cardOf ''336'' ''Sold  Oct 1, 2025'']
           (Visible 2000 (Page [cardOf ''337'' ''Sold  Nov 2, 2025''] NotVisible))))"

text \<open>An environment where the sold crawl of Dana loads the first page of that site in
  1.5 s, every other crawl attempt fails, every post is accepted, and the engine reads
  the three dates of the site (as midnight UTC) and no other string.\<close>

definition envSold :: env where
  "envSold = \<lparr>queryItemId = (\<lambda>url. None),
     parseDate = (\<lambda>d. if d = ''Nov 2, 2025'' then Num 1762041600000
                       else if d = ''Nov 1, 2025'' then Num 1761955200000
                       else if d = ''Oct 1, 2025'' then Num 1759276800000 else NaN),
     toNumber = readNumber,
     listingsPage = (\<lambda>store ssn attempt. Inl (Error ''net::ERR_TIMED_OUT'')),
     soldSite = (\<lambda>store ssn attempt.
        if ssn = Some ''dana'' then Inr (1500, soldPages)
        else Inl (Error ''net::ERR_TIMED_OUT'')),
     axiosPost = (\<lambda>url item attempt. Resolved)\<rparr>"

definition soldItemOf :: "string \<Rightarrow> string \<Rightarrow> item" where
  "soldItemOf ident sold = \<lparr>itemId = ident, title = ''Lamp'',
     link = ''https://www.ebay.com/itm/'' @ ident, price = ''$5.00'',
     sellerUsername = Some ''dana'', storeName = ''shop'', imageUrl = None, listedDate = None,
     soldDate = Some sold\<rparr>"

text \<open>The object collected from such a card, before its link is cleaned.\<close>

definition collectedOf :: "string \<Rightarrow> string \<Rightarrow> item" where
  "collectedOf ident sold = \<lparr>itemId = ident, title = ''Lamp'',
     link = ''https://www.ebay.com/itm/'' @ ident @ ''?hash=abc'', price = ''$5.00'',
     sellerUsername = Some ''dana'', storeName = ''shop'', imageUrl = None, listedDate = None,
     soldDate = Some sold\<rparr>"

text \<open>Worlds: the files they hold, and the clock at 0, at Nov 2, 2025 12:00 UTC or at
  Nov 3, 2025 00:00 UTC.\<close>

definition worldAlice :: world where
  "worldAlice = world0\<lparr>sellersFile := [sellerAlice]\<rparr>"

definition worldCarol :: world where
  "worldCarol = world0\<lparr>sellersFile := [sellerCarol]\<rparr>"

definition worldTwo :: world where
  "worldTwo = world0\<lparr>sellersFile := [sellerBob, sellerAlice]\<rparr>"

definition worldDana :: world where
  "worldDana = world0\<lparr>clock := 1762084800000, sellersFile := [sellerDana]\<rparr>"

definition worldNoon :: world where
  "worldNoon = world0\<lparr>clock := 1762084800000, sellersFile := [sellerErin, sellerDana]\<rparr>"

definition worldMidnight :: world where
  "worldMidnight = world0\<lparr>clock := 1762128000000\<rparr>"

text \<open>A world whose file cannot be written.\<close>

definition worldReadOnly :: world where
  "worldReadOnly = world0\<lparr>sellersFile := [sellerAlice], writable := False\<rparr>"


definition scheduler0 :: scheduler where
  "scheduler0 = \<lparr>active = True, intervalSet = False, timeouts = 0, inProgress = 0\<rparr>"

section \<open>Theorems\<close>

subsection \<open>The diff step\<close>

text \<open>
  C1. For every stored array \<open>ids\<close> of known ids and every crawled sequence, the new
  items are exactly the crawled items whose id is not in \<open>ids\<close>, in crawl order; the
  updated array is \<open>ids\<close> followed by the ids of the new items, so as a set it is the
  known ids together with the ids of the new items, and every known id is still in it.
  When the record has no array of known ids, every crawled item is new and the updated
  array holds their ids. The same holds on the sold path.
\<close>

theorem C1_diff_new_items_and_known_union:
  "newListings (Some ids) listings = filter (\<lambda>i. itemId i \<notin> set ids) listings
   \<and> updatedKnownListings (Some ids) (newListings (Some ids) listings)
       = ids @ map itemId (newListings (Some ids) listings)
   \<and> set (updatedKnownListings (Some ids) (newListings (Some ids) listings))
       = set ids \<union> itemId ` set (newListings (Some ids) listings)
   \<and> set ids \<subseteq> set (updatedKnownListings (Some ids) (newListings (Some ids) listings))
   \<and> newListings None listings = listings
   \<and> updatedKnownListings None listings = map itemId listings
   \<and> newSoldItems (Some ids) listings = filter (\<lambda>i. itemId i \<notin> set ids) listings
   \<and> updatedKnownSoldItems (Some ids) (newSoldItems (Some ids) listings)
       = ids @ map itemId (newSoldItems (Some ids) listings)
   \<and> set (updatedKnownSoldItems (Some ids) (newSoldItems (Some ids) listings))
       = set ids \<union> itemId ` set (newSoldItems (Some ids) listings)
   \<and> set ids \<subseteq> set (updatedKnownSoldItems (Some ids) (newSoldItems (Some ids) listings))
   \<and> newSoldItems None listings = listings
   \<and> updatedKnownSoldItems None listings = map itemId listings"
  by (auto simp add: newListings_def newSoldItems_def updatedKnownListings_def
      updatedKnownSoldItems_def orEmpty_def)

subsection \<open>The webhook sender\<close>

text \<open>Sleeping and waiting for a reset touch the clock only.\<close>

lemma sleep_requests [simp]: "requests (sleep ms w) = requests w"
  by (cases ms) simp_all
lemma sleep_rl [simp]: "rateLimitState (sleep ms w) = rateLimitState w"
  by (cases ms) simp_all
lemma sleep_file [simp]: "sellersFile (sleep ms w) = sellersFile w" "writable (sleep ms w) = writable w"
  by (cases ms; simp)+

lemma waitForReset_fields [simp]:
  "requests (waitForReset u w) = requests w"
  "rateLimitState (waitForReset u w) = rateLimitState w"
  "sellersFile (waitForReset u w) = sellersFile w"
  "writable (waitForReset u w) = writable w"
  by (simp_all add: waitForReset_def split: option.splits)


lemma attemptOnce_requests:
  "requests (pass_world (attemptOnce tn u r m a w)) = (u, clock (waitForReset u w)) # requests w"
  by (simp add: attemptOnce_def Let_def split: outcome.splits option.splits)

lemma attemptOnce_Continue:
  "attemptOnce tn u r m a w = Continue w' \<Longrightarrow> retryable r \<and> Suc a < m"
  by (auto simp add: attemptOnce_def Let_def retryable_def split: outcome.splits option.splits if_splits)

lemma attemptOnce_Return:
  "attemptOnce tn u r m a w = Return ok w' \<Longrightarrow> ok = (r = Resolved) \<and> (retryable r \<longrightarrow> m \<le> Suc a)"
  by (auto simp add: attemptOnce_def Let_def retryable_def split: outcome.splits option.splits if_splits)


lemma passes_zero: "\<not> a < m \<Longrightarrow> passes send m a = 0"
  by (subst passes.simps) simp
lemma passes_one: "a < m \<Longrightarrow> \<not> (retryable (send a) \<and> Suc a < m) \<Longrightarrow> passes send m a = 1"
  by (subst passes.simps) auto
lemma passes_step: "a < m \<Longrightarrow> retryable (send a) \<and> Suc a < m \<Longrightarrow> passes send m a = Suc (passes send m (Suc a))"
  by (subst passes.simps) simp

lemma sendLoop_stop: "\<not> a < m \<Longrightarrow> sendLoop tn u send m a w = (False, w)"
  by (subst sendLoop.simps) simp
lemma sendLoop_Return: "a < m \<Longrightarrow> attemptOnce tn u (send a) m a w = Return ok w' \<Longrightarrow> sendLoop tn u send m a w = (ok, w')"
  by (subst sendLoop.simps) simp
lemma sendLoop_Continue: "a < m \<Longrightarrow> attemptOnce tn u (send a) m a w = Continue w' \<Longrightarrow> sendLoop tn u send m a w = sendLoop tn u send m (Suc a) w'"
  by (subst sendLoop.simps) simp

lemma sendLoop_length:
  "length (requests (snd (sendLoop tn u send m a w))) = length (requests w) + passes send m a"
proof (induction tn u send m a w rule: sendLoop.induct)
  case (1 tn u send m a w)
  show ?case
  proof (cases "a < m")
    case False
    then show ?thesis by (simp add: sendLoop_stop passes_zero)
  next
    case True
    show ?thesis
    proof (cases "attemptOnce tn u (send a) m a w")
      case (Return ok w')
      have rq: "requests w' = (u, clock (waitForReset u w)) # requests w"
        using attemptOnce_requests[of tn u "send a" m a w] Return by simp
      from attemptOnce_Return[OF Return] have "\<not> (retryable (send a) \<and> Suc a < m)" by auto
      then have p: "passes send m a = 1" using True by (simp add: passes_one)
      show ?thesis using rq p by (simp add: sendLoop_Return[where send=send, OF True Return])
    next
      case (Continue w')
      have rq: "requests w' = (u, clock (waitForReset u w)) # requests w"
        using attemptOnce_requests[of tn u "send a" m a w] Continue by simp
      from attemptOnce_Continue[OF Continue] have r: "retryable (send a) \<and> Suc a < m" .
      then have p: "passes send m a = Suc (passes send m (Suc a))" using True by (simp add: passes_step)
      show ?thesis using rq p "1.IH"[OF True Continue] by (simp add: sendLoop_Continue[where send=send, OF True Continue])
    qed
  qed
qed

lemma passes_le: "passes send m a \<le> m - a"
  by (induction send m a rule: passes.induct) (subst passes.simps, auto)

lemma passes_pos: "a < m \<Longrightarrow> 0 < passes send m a"
  by (subst passes.simps) simp

lemma passes_retry: "a \<le> k \<Longrightarrow> Suc k < a + passes send m a \<Longrightarrow> retryable (send k)"
proof (induction send m a rule: passes.induct)
  case (1 send m a)
  show ?case
  proof (cases "a < m \<and> retryable (send a) \<and> Suc a < m")
    case False
    then have "passes send m a \<le> 1" by (cases "a < m") (auto simp: passes_zero passes_one)
    with "1.prems" show ?thesis by simp
  next
    case True
    then have p: "passes send m a = Suc (passes send m (Suc a))" by (simp add: passes_step)
    show ?thesis
    proof (cases "k = a")
      case True
      with \<open>a < m \<and> retryable (send a) \<and> Suc a < m\<close> show ?thesis by simp
    next
      case False
      with "1.prems" p have "Suc a \<le> k" "Suc k < Suc a + passes send m (Suc a)" by simp_all
      with "1.IH" True show ?thesis by blast
    qed
  qed
qed

lemma passes_stop:
  "a \<le> k \<Longrightarrow> k < a + passes send m a \<Longrightarrow> \<not> retryable (send k) \<Longrightarrow> a + passes send m a = Suc k"
proof (induction send m a rule: passes.induct)
  case (1 send m a)
  show ?case
  proof (cases "a < m \<and> retryable (send a) \<and> Suc a < m")
    case False
    then have "passes send m a \<le> 1" by (cases "a < m") (auto simp: passes_zero passes_one)
    with "1.prems" show ?thesis by simp
  next
    case True
    then have p: "passes send m a = Suc (passes send m (Suc a))" by (simp add: passes_step)
    from True "1.prems" have "k \<noteq> a" by auto
    with "1.prems" p have "Suc a \<le> k" "k < Suc a + passes send m (Suc a)" by simp_all
    with "1.IH" True "1.prems"(3) have "Suc a + passes send m (Suc a) = Suc k" by blast
    with p show ?thesis by simp
  qed
qed

lemma sendLoop_ok:
  "fst (sendLoop tn u send m a w) \<longleftrightarrow> (0 < passes send m a \<and> send (a + passes send m a - 1) = Resolved)"
proof (induction tn u send m a w rule: sendLoop.induct)
  case (1 tn u send m a w)
  show ?case
  proof (cases "a < m")
    case False
    then show ?thesis by (simp add: sendLoop_stop passes_zero)
  next
    case True
    show ?thesis
    proof (cases "attemptOnce tn u (send a) m a w")
      case (Return ok w')
      from attemptOnce_Return[OF Return] have ok: "ok = (send a = Resolved)"
        and "\<not> (retryable (send a) \<and> Suc a < m)" by auto
      then have p: "passes send m a = 1" using True by (simp add: passes_one)
      show ?thesis using ok p by (simp add: sendLoop_Return[where send=send, OF True Return])
    next
      case (Continue w')
      from attemptOnce_Continue[OF Continue] have r: "retryable (send a) \<and> Suc a < m" .
      then have p: "passes send m a = Suc (passes send m (Suc a))" using True by (simp add: passes_step)
      have "0 < passes send m (Suc a)" using r by (simp add: passes_pos)
      then show ?thesis using p "1.IH"[OF True Continue] by (simp add: sendLoop_Continue[where send=send, OF True Continue])
    qed
  qed
qed

lemma attemptOnce_frame:
  "u' \<noteq> u \<Longrightarrow> rateLimitState (pass_world (attemptOnce tn u r m a w)) u' = rateLimitState w u'"
  by (simp add: attemptOnce_def Let_def split: outcome.splits option.splits)

lemma attemptOnce_file:
  "sellersFile (pass_world (attemptOnce tn u r m a w)) = sellersFile w"
  "writable (pass_world (attemptOnce tn u r m a w)) = writable w"
  by (simp_all add: attemptOnce_def Let_def split: outcome.splits option.splits)

lemma sendLoop_frame:
  "u' \<noteq> u \<Longrightarrow> rateLimitState (snd (sendLoop tn u send m a w)) u' = rateLimitState w u'"
proof (induction tn u send m a w rule: sendLoop.induct)
  case (1 tn u send m a w)
  show ?case
  proof (cases "a < m")
    case False
    then show ?thesis by (simp add: sendLoop_stop)
  next
    case True
    show ?thesis
    proof (cases "attemptOnce tn u (send a) m a w")
      case (Return ok w')
      then show ?thesis
        using attemptOnce_frame[OF "1.prems", of tn "send a" m a w]
        by (simp add: sendLoop_Return[where send=send, OF True Return])
    next
      case (Continue w')
      then show ?thesis
        using attemptOnce_frame[OF "1.prems", of tn "send a" m a w] "1.IH"[OF True Continue "1.prems"]
        by (simp add: sendLoop_Continue[where send=send, OF True Continue])
    qed
  qed
qed

lemma sendLoop_file:
  "sellersFile (snd (sendLoop tn u send m a w)) = sellersFile w \<and>
   writable (snd (sendLoop tn u send m a w)) = writable w"
proof (induction tn u send m a w rule: sendLoop.induct)
  case (1 tn u send m a w)
  show ?case
  proof (cases "a < m")
    case False
    then show ?thesis by (simp add: sendLoop_stop)
  next
    case True
    show ?thesis
    proof (cases "attemptOnce tn u (send a) m a w")
      case (Return ok w')
      then show ?thesis
        using attemptOnce_file[of tn u "send a" m a w]
        by (simp add: sendLoop_Return[where send=send, OF True Return])
    next
      case (Continue w')
      then show ?thesis
        using attemptOnce_file[of tn u "send a" m a w] "1.IH"[OF True Continue]
        by (simp add: sendLoop_Continue[where send=send, OF True Continue])
    qed
  qed
qed

lemma sendLoop_suffix:
  "\<exists>new. requests (snd (sendLoop tn u send m a w)) = new @ requests w"
proof (induction tn u send m a w rule: sendLoop.induct)
  case (1 tn u send m a w)
  show ?case
  proof (cases "a < m")
    case False
    then show ?thesis by (simp add: sendLoop_stop)
  next
    case True
    show ?thesis
    proof (cases "attemptOnce tn u (send a) m a w")
      case (Return ok w')
      then show ?thesis
        using attemptOnce_requests[of tn u "send a" m a w]
        by (simp add: sendLoop_Return[where send=send, OF True Return])
    next
      case (Continue w')
      from "1.IH"[OF True Continue] obtain new where
        "requests (snd (sendLoop tn u send m (a + 1) w')) = new @ requests w'" by blast
      moreover have "requests w' = (u, clock (waitForReset u w)) # requests w"
        using attemptOnce_requests[of tn u "send a" m a w] Continue by simp
      ultimately show ?thesis
        by (simp add: sendLoop_Continue[where send=send, OF True Continue])
    qed
  qed
qed

lemma waitForReset_None: "rateLimitState w u = None \<Longrightarrow> waitForReset u w = w"
  by (simp add: waitForReset_def)

text \<open>
  C8. \<open>sendWithRateLimit\<close> is a total function into the booleans: each path through
  the \<open>try\<close> and the \<open>catch\<close> of the source ends in \<open>return true\<close>,
  \<open>return false\<close> or \<open>continue\<close>, and none throws again. With the default of 5 for
  \<open>maxRetries\<close>, which both webhook functions use, it sends at most 5 requests; a
  further request follows a pass only when that pass was rejected with status 429 or with
  a status of 500 and above (a valid HTTP status code of 500 and above is a 5xx one); a pass
  rejected in any other way, a missing response included, is the last one and the result
  is false; and the result is true exactly when the last pass resolved.
\<close>

theorem C8_send_never_raises_bounded_retries:
  "\<exists>new. requests (snd (sendWithRateLimit toNum webhookUrl send 5 w)) = new @ requests w
     \<and> length new \<le> 5
     \<and> (\<forall>k. Suc k < length new \<longrightarrow> retryable (send k))
     \<and> (\<forall>k. k < length new \<and> \<not> retryable (send k) \<and> send k \<noteq> Resolved
            \<longrightarrow> \<not> fst (sendWithRateLimit toNum webhookUrl send 5 w) \<and> length new = Suc k)
     \<and> (fst (sendWithRateLimit toNum webhookUrl send 5 w)
          \<longleftrightarrow> 0 < length new \<and> send (length new - 1) = Resolved)"
proof -
  obtain new where new: "requests (snd (sendLoop toNum webhookUrl send 5 0 w)) = new @ requests w"
    using sendLoop_suffix by blast
  have len: "length new = passes send 5 0"
    using sendLoop_length[of toNum webhookUrl send 5 0 w] new by simp
  have le: "length new \<le> 5" using passes_le[of send 5 0] len by simp
  have retry: "\<forall>k. Suc k < length new \<longrightarrow> retryable (send k)"
    using passes_retry[of 0 _ send 5] len by simp
  have stop: "\<forall>k. k < length new \<and> \<not> retryable (send k) \<longrightarrow> length new = Suc k"
    using passes_stop[of 0 _ send 5] len by simp
  have ok: "fst (sendLoop toNum webhookUrl send 5 0 w) \<longleftrightarrow> 0 < length new \<and> send (length new - 1) = Resolved"
    using sendLoop_ok[of toNum webhookUrl send 5 0 w] len by simp
  have no: "\<forall>k. k < length new \<and> \<not> retryable (send k) \<and> send k \<noteq> Resolved
              \<longrightarrow> \<not> fst (sendLoop toNum webhookUrl send 5 0 w) \<and> length new = Suc k"
  proof (intro allI impI)
    fix k assume k: "k < length new \<and> \<not> retryable (send k) \<and> send k \<noteq> Resolved"
    with stop have e: "length new = Suc k" by blast
    with ok k show "\<not> fst (sendLoop toNum webhookUrl send 5 0 w) \<and> length new = Suc k" by simp
  qed
  show ?thesis
    unfolding sendWithRateLimit_def
    using new le retry no ok by blast
qed

theorem C8_send_witness:
  "requests (snd (sendWithRateLimit readNumber ''hook'' postExample 5 world0))
     = [(''hook'', 3000), (''hook'', 1000), (''hook'', 0)]
   \<and> retryable (postExample 0) \<and> retryable (postExample 1)
   \<and> \<not> retryable (postExample 2) \<and> \<not> fst (sendWithRateLimit readNumber ''hook'' postExample 5 world0)"
  using C8_send_never_raises_bounded_retries [of readNumber "''hook''" postExample world0]
  by (simp add: sendWithRateLimit_def sendLoop.simps attemptOnce_def waitForReset_def
      postExample_def secondsResponse_def world0_def retryAfter_def retryable_def Let_def)

text \<open>
  C5, as stated, fails: a \<open>retry-after\<close> header of 3000 is a string, so the test
  \<open>typeof retryAfter === "number"\<close> fails and the wait is 3000 * 1000 milliseconds, not
  3000: the next request to the destination leaves 3000000 ms later.
\<close>

theorem C5_counterexample:
  "retryAfter headerResponse = Some (DStr ''3000'') \<and> readNumber ''3000'' = Num 3000
   \<and> rateLimitWait readNumber (retryAfter headerResponse) 0 = Num 3000000
   \<and> requests (snd (sendWithRateLimit readNumber ''hook'' postHeader 5 world0))
        = [(''hook'', 3000000), (''hook'', 0)]"
  by (simp add: sendWithRateLimit_def sendLoop.simps attemptOnce_def waitForReset_def postHeader_def
      world0_def retryAfter_def headerResponse_def readNumber_def js_sub_def Let_def)

text \<open>
  C5, amended. The directive is the header when it is set and not empty, else the body's
  \<open>retry_after\<close>. A directive that is a number above 1000 is the wait in milliseconds;
  any other directive that is not 0, \<open>NaN\<close> or empty is coerced to a number and
  multiplied by 1000, so a header, a string, is always read as seconds; with no directive,
  or one that is 0 or empty, the wait is \<open>min(30000, 2^attempt * 1000)\<close>. On a 429
  answer the pass records \<open>resetAt = now + wait\<close> under the destination of the send;
  when attempts remain it sleeps the wait on a timer and goes on, and it returns false
  otherwise. The timer fires after the wait when the wait is between 1 and
  \<open>2^31 - 1\<close> ms, and after 1 ms for any other wait, \<open>NaN\<close> included. A whole send leaves the entry of every other destination as it was,
  and a send to a destination with no entry of its own does not wait afterwards.
\<close>

theorem C5_rate_limit_wait_per_destination:
  "(retry_after_header r = Some h \<and> h \<noteq> []
      \<longrightarrow> retryAfter r = Some (DStr h)
        \<and> rateLimitWait toNum (retryAfter r) attempt = js_mul (toNum h) (Num 1000))
   \<and> (\<not> truthy (retry_after_header r) \<longrightarrow> retryAfter r = retry_after_data r)
   \<and> (retryAfter r = Some (DNum n) \<and> js_gt n (Num 1000)
      \<longrightarrow> rateLimitWait toNum (retryAfter r) attempt = n)
   \<and> (retryAfter r = Some d \<and> truthyD d \<and> (\<forall>m. d = DNum m \<longrightarrow> \<not> js_gt m (Num 1000))
      \<longrightarrow> rateLimitWait toNum (retryAfter r) attempt = js_mul (toNumberD toNum d) (Num 1000))
   \<and> (retryAfter r = None \<or> (\<exists>d'. retryAfter r = Some d' \<and> \<not> truthyD d')
      \<longrightarrow> rateLimitWait toNum (retryAfter r) attempt = Num (min 30000 (2 ^ attempt * 1000)))
   \<and> (status r = 429 \<longrightarrow>
        (let w0 = waitForReset url w;
             waitTime = rateLimitWait toNum (retryAfter r) attempt;
             w2 = w0\<lparr>requests := (url, clock w0) # requests w0,
                      rateLimitState := (rateLimitState w0)(url \<mapsto> js_add (Num (clock w0)) waitTime)\<rparr>
         in attemptOnce toNum url (Rejected (Some r)) maxRetries attempt w
              = (if attempt < maxRetries - 1 then Continue (sleep waitTime w2)
                 else Return False w2)))
   \<and> (1 \<le> x \<and> x \<le> 2147483647 \<longrightarrow> sleep (Num x) w = w\<lparr>clock := clock w + x\<rparr>)
   \<and> (\<not> (1 \<le> x \<and> x \<le> 2147483647) \<longrightarrow> sleep (Num x) w = w\<lparr>clock := clock w + 1\<rparr>)
   \<and> sleep NaN w = w\<lparr>clock := clock w + 1\<rparr>
   \<and> (url' \<noteq> url \<longrightarrow>
        rateLimitState (snd (sendWithRateLimit toNum url send maxRetries w)) url'
          = rateLimitState w url')
   \<and> (url' \<noteq> url \<and> rateLimitState w url' = None \<longrightarrow>
        waitForReset url' (snd (sendWithRateLimit toNum url send maxRetries w))
          = snd (sendWithRateLimit toNum url send maxRetries w))"
proof -
  have hdr: "retry_after_header r = Some h \<and> h \<noteq> []
      \<longrightarrow> retryAfter r = Some (DStr h)
        \<and> rateLimitWait toNum (retryAfter r) attempt = js_mul (toNum h) (Num 1000)"
    by (simp add: retryAfter_def)
  have nohdr: "\<not> truthy (retry_after_header r) \<longrightarrow> retryAfter r = retry_after_data r"
    by (simp add: retryAfter_def)
  have millis: "retryAfter r = Some (DNum n) \<and> js_gt n (Num 1000)
      \<longrightarrow> rateLimitWait toNum (retryAfter r) attempt = n"
    by (cases n) auto
  have secs: "retryAfter r = Some d \<and> truthyD d \<and> (\<forall>m. d = DNum m \<longrightarrow> \<not> js_gt m (Num 1000))
      \<longrightarrow> rateLimitWait toNum (retryAfter r) attempt = js_mul (toNumberD toNum d) (Num 1000)"
    by (cases d) auto
  have bare: "retryAfter r = None \<or> (\<exists>d'. retryAfter r = Some d' \<and> \<not> truthyD d')
      \<longrightarrow> rateLimitWait toNum (retryAfter r) attempt = Num (min 30000 (2 ^ attempt * 1000))"
    by auto
  have step: "status r = 429 \<longrightarrow>
        (let w0 = waitForReset url w;
             waitTime = rateLimitWait toNum (retryAfter r) attempt;
             w2 = w0\<lparr>requests := (url, clock w0) # requests w0,
                      rateLimitState := (rateLimitState w0)(url \<mapsto> js_add (Num (clock w0)) waitTime)\<rparr>
         in attemptOnce toNum url (Rejected (Some r)) maxRetries attempt w
              = (if attempt < maxRetries - 1 then Continue (sleep waitTime w2)
                 else Return False w2))"
    by (simp add: attemptOnce_def Let_def)
  have timer: "1 \<le> x \<and> x \<le> 2147483647 \<longrightarrow> sleep (Num x) w = w\<lparr>clock := clock w + x\<rparr>"
    by simp
  have clamp: "\<not> (1 \<le> x \<and> x \<le> 2147483647) \<longrightarrow> sleep (Num x) w = w\<lparr>clock := clock w + 1\<rparr>"
    by simp
  have nan: "sleep NaN w = w\<lparr>clock := clock w + 1\<rparr>"
    by simp
  have frame: "url' \<noteq> url \<longrightarrow>
        rateLimitState (snd (sendWithRateLimit toNum url send maxRetries w)) url'
          = rateLimitState w url'"
    by (simp add: sendWithRateLimit_def sendLoop_frame)
  have nowait: "url' \<noteq> url \<and> rateLimitState w url' = None \<longrightarrow>
        waitForReset url' (snd (sendWithRateLimit toNum url send maxRetries w))
          = snd (sendWithRateLimit toNum url send maxRetries w)"
    using frame by (simp add: waitForReset_None)
  from hdr nohdr millis secs bare step timer clamp nan frame nowait show ?thesis by (intro conjI)
qed

theorem C5_witness:
  "rateLimitWait readNumber (retryAfter headerResponse) 0 = Num 3000000
   \<and> rateLimitWait readNumber (retryAfter bodyResponse) 0 = Num 3000
   \<and> rateLimitWait readNumber (retryAfter secondsResponse) 0 = Num 2000
   \<and> rateLimitWait readNumber (retryAfter zeroResponse) 2 = Num 4000
   \<and> rateLimitWait readNumber (retryAfter bareResponse) 2 = Num 4000
   \<and> sleep (Num 3000) world0 = world0\<lparr>clock := 3000\<rparr>
   \<and> sleep (Num 3000000000) world0 = world0\<lparr>clock := 1\<rparr>
   \<and> rateLimitState (snd (sendWithRateLimit readNumber ''hook'' postHeader 5 world0)) ''other''
        = None
   \<and> waitForReset ''other'' (snd (sendWithRateLimit readNumber ''hook'' postHeader 5 world0))
        = snd (sendWithRateLimit readNumber ''hook'' postHeader 5 world0)
   \<and> attemptOnce readNumber ''hook'' (Rejected (Some bodyResponse)) 5 0 world0
        = Continue \<lparr>clock = 3000, rateLimitState = (\<lambda>u. None)(''hook'' \<mapsto> Num 3000),
                    sellersFile = [], writable = True, requests = [(''hook'', 0)]\<rparr>"
  using C5_rate_limit_wait_per_destination
          [where r = headerResponse and h = "''3000''" and toNum = readNumber and attempt = 0
             and d = "DStr ''3000''" and url = "''hook''" and url' = "''other''"
             and send = postHeader and maxRetries = 5 and w = world0 and x = 3000]
        C5_rate_limit_wait_per_destination
          [where r = bodyResponse and n = "Num 3000" and toNum = readNumber and attempt = 0
             and url = "''hook''" and url' = "''other''" and send = postHeader
             and maxRetries = 5 and w = world0 and x = 3000]
        C5_rate_limit_wait_per_destination
          [where r = secondsResponse and d = "DNum (Num 2)" and toNum = readNumber
             and attempt = 0 and x = 3000000000 and w = world0]
        C5_rate_limit_wait_per_destination
          [where r = zeroResponse and toNum = readNumber and attempt = 2]
        C5_rate_limit_wait_per_destination
          [where r = bareResponse and toNum = readNumber and attempt = 2]
  by (simp add: headerResponse_def bodyResponse_def secondsResponse_def zeroResponse_def
      bareResponse_def world0_def readNumber_def retryAfter_def waitForReset_def Let_def)

subsection \<open>The crawler\<close>

text \<open>The loop over the collected items keeps the in-window ones in order, and its
  flag answers whether the last collected item is in-window.\<close>

lemma classifyItems_eq:
  "classifyItems pd now sn ssn items soldItems lastItemInRange =
     (soldItems @ map (cleanItem sn ssn) (filter (soldWithinTwoDays pd now) items),
      if items = [] then lastItemInRange else soldWithinTwoDays pd now (last items))"
  by (induction items arbitrary: soldItems lastItemInRange) auto

lemma paginate_Visible:
  "paginate e sn ssn (Page cards (Visible loadTime nextPage)) soldItems pageNum w =
     (if collectPage (queryItemId e) sn ssn cards \<noteq> []
         \<and> soldWithinTwoDays (parseDate e) (clock w) (last (collectPage (queryItemId e) sn ssn cards))
      then paginate e sn ssn nextPage
             (soldItems @ map (cleanItem sn ssn)
                (filter (soldWithinTwoDays (parseDate e) (clock w)) (collectPage (queryItemId e) sn ssn cards)))
             (pageNum + 1) (elapse loadTime w)
      else (soldItems @ map (cleanItem sn ssn)
              (filter (soldWithinTwoDays (parseDate e) (clock w)) (collectPage (queryItemId e) sn ssn cards)),
            pageNum, w))"
  by (auto simp add: classifyItems_eq Let_def)

lemma paginate_stop:
  "nextButton = NotVisible \<or> nextButton = Throws \<Longrightarrow>
   paginate e sn ssn (Page cards nextButton) soldItems pageNum w =
     (soldItems @ map (cleanItem sn ssn)
        (filter (soldWithinTwoDays (parseDate e) (clock w)) (collectPage (queryItemId e) sn ssn cards)),
      pageNum, w)"
  by (auto simp add: classifyItems_eq Let_def)

declare paginate.simps [simp del]

lemma paginate_pageNum: "pageNum \<le> fst (snd (paginate e sn ssn site soldItems pageNum w))"
proof (induction site arbitrary: soldItems pageNum w
    rule: site.induct[where ?P2.0 = "\<lambda>nb. \<forall>t page. nb = Visible t page \<longrightarrow>
            (\<forall>soldItems pageNum w. pageNum \<le> fst (snd (paginate e sn ssn page soldItems pageNum w)))"])
  case (Page cards nb)
  show ?case
  proof (cases nb)
    case (Visible loadTime nextPage)
    have step: "pageNum + 1 \<le> fst (snd (paginate e sn ssn nextPage s' (pageNum + 1) w'))" for s' w'
      using Page Visible by blast
    show ?thesis
    proof (cases "collectPage (queryItemId e) sn ssn cards \<noteq> []
         \<and> soldWithinTwoDays (parseDate e) (clock w) (last (collectPage (queryItemId e) sn ssn cards))")
      case True
      have "pageNum + 1 \<le> fst (snd (paginate e sn ssn (Page cards nb) soldItems pageNum w))"
        unfolding Visible paginate_Visible using True step by simp
      then show ?thesis by simp
    next
      case False
      then show ?thesis unfolding Visible paginate_Visible by auto
    qed
  qed (simp_all add: paginate_stop)
qed auto

lemma collectCard_no_sold:
  "c_soldDateText c = [] \<or> \<not> str_includes (c_soldDateText c) ''Sold'' \<Longrightarrow> collectCard q sn ssn c = None"
  by (auto simp add: collectCard_def)

lemma collectPage_append:
  "collectPage q sn ssn (xs @ ys) = collectPage q sn ssn xs @ collectPage q sn ssn ys"
  by (simp add: collectPage_def List.map_filter_def)

text \<open>Evaluation on the concrete inputs.\<close>

lemmas card_ev = collectPage_def List.map_filter_def collectCard_def extractItemId_def
  toLowerCase_def upperChars_def lowerChars_def latinUpperChars_def latinLowerChars_def
  digitChars_def isDigit_def isAlpha_def isSpace_def Let_def cardOf_def collectedOf_def

lemma collectPage_first:
  "collectPage (\<lambda>url. None) ''shop'' (Some ''dana'')
     [cardOf ''333'' ''Sold  Nov 2, 2025'', cardOf ''334'' ''Sold  Nov 1, 2025'']
     = [collectedOf ''333'' ''Sold  Nov 2, 2025'', collectedOf ''334'' ''Sold  Nov 1, 2025'']"
  by (simp add: card_ev)

lemma collectPage_second:
  "collectPage (\<lambda>url. None) ''shop'' (Some ''dana'')
     [cardOf ''335'' ''Sold  Nov 1, 2025'', cardOf ''336'' ''Sold  Oct 1, 2025'']
     = [collectedOf ''335'' ''Sold  Nov 1, 2025'', collectedOf ''336'' ''Sold  Oct 1, 2025'']"
  by (simp add: card_ev)

lemma collectPage_invalid:
  "collectPage (\<lambda>url. None) ''shop'' (Some ''dana'') [cardOf ''555'' ''Sold  Nov 99, 2025'']
     = [collectedOf ''555'' ''Sold  Nov 99, 2025'']"
  by (simp add: card_ev)

lemmas date_ev = matchDate_def isDigit_def isAlpha_def isSpace_def digitChars_def upperChars_def
  lowerChars_def Let_def

lemma dateMatch_examples:
  "dateMatch ''Sold  Nov 2, 2025'' = Some ''Nov 2, 2025''"
  "dateMatch ''Sold  Nov 1, 2025'' = Some ''Nov 1, 2025''"
  "dateMatch ''Sold  Oct 1, 2025'' = Some ''Oct 1, 2025''"
  "dateMatch ''Sold  Nov 99, 2025'' = Some ''Nov 99, 2025''"
  by (simp_all add: date_ev)

lemma envSold_fields:
  "queryItemId envSold = (\<lambda>url. None)"
  "parseDate envSold ''Nov 2, 2025'' = Num 1762041600000"
  "parseDate envSold ''Nov 1, 2025'' = Num 1761955200000"
  "parseDate envSold ''Oct 1, 2025'' = Num 1759276800000"
  "parseDate envSold ''Nov 99, 2025'' = NaN"
  "toNumber envSold = readNumber"
  "soldSite envSold sn (Some ''dana'') attempt = Inr (1500, soldPages)"
  "soldSite envSold sn (Some ''erin'') attempt = Inl (Error ''net::ERR_TIMED_OUT'')"
  "axiosPost envSold url item attempt = Resolved"
  by (simp_all add: envSold_def)

lemma within_examples:
  "soldWithinTwoDays (parseDate envSold) now (collectedOf ident ''Sold  Nov 2, 2025'')
     = (now \<le> 1762041600000 + 172800000)"
  "soldWithinTwoDays (parseDate envSold) now (collectedOf ident ''Sold  Nov 1, 2025'')
     = (now \<le> 1761955200000 + 172800000)"
  "soldWithinTwoDays (parseDate envSold) now (collectedOf ident ''Sold  Oct 1, 2025'')
     = (now \<le> 1759276800000 + 172800000)"
  "soldWithinTwoDays (parseDate envSold) now (collectedOf ident ''Sold  Nov 99, 2025'') = False"
  by (simp_all add: soldWithinTwoDays_def collectedOf_def dateMatch_examples envSold_fields
      js_sub_def Let_def del: dateMatch.simps)

lemma cleanItem_collectedOf:
  "cleanItem ''shop'' (Some ''dana'') (collectedOf ''333'' sold) = soldItemOf ''333'' sold"
  "cleanItem ''shop'' (Some ''dana'') (collectedOf ''334'' sold) = soldItemOf ''334'' sold"
  "cleanItem ''shop'' (Some ''dana'') (collectedOf ''335'' sold) = soldItemOf ''335'' sold"
  by (simp_all add: cleanItem_def collectedOf_def soldItemOf_def)

lemma soldPages_crawl:
  "1762084800000 \<le> clock w \<Longrightarrow> clock w \<le> 1762084900000 \<Longrightarrow>
   paginate envSold ''shop'' (Some ''dana'') soldPages [] 1 w
     = ([soldItemOf ''333'' ''Sold  Nov 2, 2025'', soldItemOf ''334'' ''Sold  Nov 1, 2025'',
         soldItemOf ''335'' ''Sold  Nov 1, 2025''], 2, elapse 2000 w)"
  by (simp add: soldPages_def paginate_Visible envSold_fields collectPage_first
      collectPage_second within_examples cleanItem_collectedOf elapse_def)

text \<open>
  C3. With \<open>pageItems\<close> the items collected from the page in page order, classified at
  the clock of the world in which the page is processed: when the next-page control is
  visible, the crawl goes on to the next page (with \<open>pageNum + 1\<close>, after the time its
  load takes) if the last collected item is in-window and stops with the items gathered
  so far otherwise; when the control is not visible, or looking for it or clicking it
  throws, the crawl stops with the items gathered so far; the page counter moves past the
  current page exactly when the last item is in-window and the control leads to a page.
  An attempt whose first page loads processes it 10 s after the load, returns the items
  gathered and does not throw.
\<close>

theorem C3_next_page_iff_last_item_in_window:
  "(let pageItems = collectPage (queryItemId e) sn ssn cards;
        inWindow = soldWithinTwoDays (parseDate e) (clock w);
        soldItems' = soldItems @ map (cleanItem sn ssn) (filter inWindow pageItems);
        lastInWindow = (pageItems \<noteq> [] \<and> inWindow (last pageItems))
    in paginate e sn ssn (Page cards (Visible loadTime nextPage)) soldItems pageNum w
         = (if lastInWindow
            then paginate e sn ssn nextPage soldItems' (pageNum + 1) (elapse loadTime w)
            else (soldItems', pageNum, w))
       \<and> paginate e sn ssn (Page cards NotVisible) soldItems pageNum w = (soldItems', pageNum, w)
       \<and> paginate e sn ssn (Page cards Throws) soldItems pageNum w = (soldItems', pageNum, w)
       \<and> (pageNum < fst (snd (paginate e sn ssn (Page cards nextButton) soldItems pageNum w))
            \<longleftrightarrow> lastInWindow \<and> (\<exists>t page. nextButton = Visible t page)))
   \<and> (soldSite e sn ssn attempt = Inr (firstLoad, firstPage) \<longrightarrow>
        getSellerSoldItemsInternal e sn ssn attempt w
          = (Inr (fst (paginate e sn ssn firstPage [] 1 (elapse 10000 (elapse firstLoad w)))),
             snd (snd (paginate e sn ssn firstPage [] 1 (elapse 10000 (elapse firstLoad w))))))"
proof -
  let ?pageItems = "collectPage (queryItemId e) sn ssn cards"
  let ?inWindow = "soldWithinTwoDays (parseDate e) (clock w)"
  let ?soldItems' = "soldItems @ map (cleanItem sn ssn) (filter ?inWindow ?pageItems)"
  let ?last = "?pageItems \<noteq> [] \<and> ?inWindow (last ?pageItems)"
  have vis: "paginate e sn ssn (Page cards (Visible t nextPage)) soldItems pageNum w
         = (if ?last then paginate e sn ssn nextPage ?soldItems' (pageNum + 1) (elapse t w)
            else (?soldItems', pageNum, w))" for nextPage t
    by (rule paginate_Visible)
  have nv: "paginate e sn ssn (Page cards NotVisible) soldItems pageNum w = (?soldItems', pageNum, w)"
    by (simp add: paginate_stop)
  have th: "paginate e sn ssn (Page cards Throws) soldItems pageNum w = (?soldItems', pageNum, w)"
    by (simp add: paginate_stop)
  have iff: "pageNum < fst (snd (paginate e sn ssn (Page cards nextButton) soldItems pageNum w))
            \<longleftrightarrow> ?last \<and> (\<exists>t page. nextButton = Visible t page)"
  proof (cases nextButton)
    case NotVisible
    then show ?thesis using nv by simp
  next
    case Throws
    then show ?thesis using th by simp
  next
    case (Visible t page)
    show ?thesis
    proof (cases ?last)
      case True
      have "pageNum + 1 \<le> fst (snd (paginate e sn ssn page ?soldItems' (pageNum + 1) (elapse t w)))"
        by (rule paginate_pageNum)
      then show ?thesis using True Visible vis[of t page] by simp
    next
      case False
      then show ?thesis using Visible vis[of t page] by auto
    qed
  qed
  have ret: "soldSite e sn ssn attempt = Inr (firstLoad, firstPage) \<longrightarrow>
        getSellerSoldItemsInternal e sn ssn attempt w
          = (Inr (fst (paginate e sn ssn firstPage [] 1 (elapse 10000 (elapse firstLoad w)))),
             snd (snd (paginate e sn ssn firstPage [] 1 (elapse 10000 (elapse firstLoad w)))))"
    by (simp add: getSellerSoldItemsInternal_def split: prod.splits)
  show ?thesis
    unfolding Let_def using vis nv th iff ret by blast
qed

theorem C3_witness:
  "paginate envSold ''shop'' (Some ''dana'') soldPages [] 1 (worldDana\<lparr>clock := 1762084811500\<rparr>)
     = ([soldItemOf ''333'' ''Sold  Nov 2, 2025'', soldItemOf ''334'' ''Sold  Nov 1, 2025'',
         soldItemOf ''335'' ''Sold  Nov 1, 2025''], 2, worldDana\<lparr>clock := 1762084813500\<rparr>)
   \<and> soldSite envSold ''shop'' (Some ''dana'') 1 = Inr (1500, soldPages)
   \<and> getSellerSoldItemsInternal envSold ''shop'' (Some ''dana'') 1 worldDana
     = (Inr [soldItemOf ''333'' ''Sold  Nov 2, 2025'', soldItemOf ''334'' ''Sold  Nov 1, 2025'',
             soldItemOf ''335'' ''Sold  Nov 1, 2025''], worldDana\<lparr>clock := 1762084813500\<rparr>)"
  using C3_next_page_iff_last_item_in_window
          [where e = envSold and sn = "''shop''" and ssn = "Some ''dana''" and attempt = 1
             and firstPage = soldPages and firstLoad = 1500 and w = worldDana]
        soldPages_crawl [of "worldDana\<lparr>clock := 1762084811500\<rparr>"]
  by (simp add: envSold_fields worldDana_def world0_def elapse_def)

text \<open>
  C10. A card whose sold-date text is empty or does not contain \<open>Sold\<close> is not
  collected: the items collected from the page, and so the whole crawl from that page,
  are those of the page without the card. Classification runs over the collected items
  only.
\<close>

theorem C10_cards_without_sold_marker_excluded:
  "c_soldDateText c = [] \<or> \<not> str_includes (c_soldDateText c) ''Sold'' \<Longrightarrow>
     collectCard q sn ssn c = None
     \<and> collectPage q sn ssn (before @ c # after) = collectPage q sn ssn (before @ after)
     \<and> paginate e sn ssn (Page (before @ c # after) nextButton) soldItems pageNum w
         = paginate e sn ssn (Page (before @ after) nextButton) soldItems pageNum w"
proof -
  assume a: "c_soldDateText c = [] \<or> \<not> str_includes (c_soldDateText c) ''Sold''"
  have n: "collectCard q sn ssn c = None" for q by (rule collectCard_no_sold[OF a])
  have p: "collectPage q sn ssn (before @ c # after) = collectPage q sn ssn (before @ after)" for q
    using n[of q] by (simp add: collectPage_def List.map_filter_def)
  show ?thesis using n p by (simp add: paginate.simps)
qed

theorem C10_witness:
  "\<not> str_includes (c_soldDateText (cardOf ''999'' ''Ended Nov 2, 2025'')) ''Sold''
   \<and> collectCard (\<lambda>url. None) ''shop'' (Some ''dana'') (cardOf ''999'' ''Ended Nov 2, 2025'') = None
   \<and> collectPage (\<lambda>url. None) ''shop'' (Some ''dana'')
        [cardOf ''333'' ''Sold  Nov 2, 2025'', cardOf ''999'' ''Ended Nov 2, 2025'']
      = collectPage (\<lambda>url. None) ''shop'' (Some ''dana'') [cardOf ''333'' ''Sold  Nov 2, 2025'']"
  using C10_cards_without_sold_marker_excluded
          [where c = "cardOf ''999'' ''Ended Nov 2, 2025''" and q = "\<lambda>url. None" and sn = "''shop''"
             and ssn = "Some ''dana''" and before = "[cardOf ''333'' ''Sold  Nov 2, 2025'']"
             and after = "[]"]
  by (simp add: cardOf_def)

text \<open>An item whose text does not match the pattern at all is in-window: this is the
  branch the source comments \<open>If date parsing fails, include the item anyway\<close>.\<close>

lemma soldWithinTwoDays_no_match:
  "soldDate item = Some t \<Longrightarrow> str_includes t ''Sold'' \<Longrightarrow> dateMatch t = None
     \<Longrightarrow> soldWithinTwoDays pd now item"
  by (cases t) (simp_all add: soldWithinTwoDays_def)

text \<open>
  C7 at the sold-date text \<open>Sold  Nov 99, 2025\<close>: the pattern matches, the engine
  reads \<open>Nov 99, 2025\<close> as an invalid date, \<open>new Date\<close> does not throw, so the
  \<open>catch\<close> that would include the item never runs; \<open>diffDays\<close> is \<open>NaN\<close>,
  \<open>NaN <= 2\<close> is false, and the item is left out of the result.
\<close>

theorem C7_invalid_date_is_dropped:
  "dateMatch ''Sold  Nov 99, 2025'' = Some ''Nov 99, 2025''
   \<and> parseDate envSold ''Nov 99, 2025'' = NaN
   \<and> collectPage (queryItemId envSold) ''shop'' (Some ''dana'') [cardOf ''555'' ''Sold  Nov 99, 2025'']
       = [(soldItemOf ''555'' ''Sold  Nov 99, 2025'')\<lparr>link := ''https://www.ebay.com/itm/555?hash=abc''\<rparr>]
   \<and> \<not> soldWithinTwoDays (parseDate envSold) 1762128000000
         ((soldItemOf ''555'' ''Sold  Nov 99, 2025'')\<lparr>link := ''https://www.ebay.com/itm/555?hash=abc''\<rparr>)
   \<and> paginate envSold ''shop'' (Some ''dana'')
        (Page [cardOf ''555'' ''Sold  Nov 99, 2025''] NotVisible) [] 1 worldMidnight
       = ([], 1, worldMidnight)"
proof -
  have same: "(soldItemOf ''555'' ''Sold  Nov 99, 2025'')\<lparr>link := ''https://www.ebay.com/itm/555?hash=abc''\<rparr>
                = collectedOf ''555'' ''Sold  Nov 99, 2025''"
    by (simp add: soldItemOf_def collectedOf_def)
  show ?thesis
    unfolding same
    by (simp add: dateMatch_examples envSold_fields collectPage_invalid within_examples
        paginate_stop del: dateMatch.simps)
qed

subsection \<open>The retry wrapper and the store\<close>

lemma elapse_fields [simp]:
  "sellersFile (elapse t w) = sellersFile w" "writable (elapse t w) = writable w"
  "rateLimitState (elapse t w) = rateLimitState w" "requests (elapse t w) = requests w"
  by (simp_all add: elapse_def)

lemma paginate_file:
  "sellersFile (snd (snd (paginate e sn ssn site soldItems pageNum w))) = sellersFile w
   \<and> writable (snd (snd (paginate e sn ssn site soldItems pageNum w))) = writable w"
proof (induction site arbitrary: soldItems pageNum w
    rule: site.induct[where ?P2.0 = "\<lambda>nb. \<forall>t page. nb = Visible t page \<longrightarrow>
            (\<forall>soldItems pageNum w.
               sellersFile (snd (snd (paginate e sn ssn page soldItems pageNum w))) = sellersFile w
               \<and> writable (snd (snd (paginate e sn ssn page soldItems pageNum w))) = writable w)"])
  case (Page cards nb)
  show ?case
  proof (cases nb)
    case (Visible loadTime nextPage)
    have step: "sellersFile (snd (snd (paginate e sn ssn nextPage s' n' w'))) = sellersFile w'
               \<and> writable (snd (snd (paginate e sn ssn nextPage s' n' w'))) = writable w'" for s' n' w'
      using Page Visible by blast
    show ?thesis
      unfolding Visible paginate_Visible using step by simp
  qed (simp_all add: paginate_stop)
qed auto

lemma getSellerListingsInternal_file:
  "sellersFile (snd (getSellerListingsInternal e sn ssn a w)) = sellersFile w
   \<and> writable (snd (getSellerListingsInternal e sn ssn a w)) = writable w"
  by (simp add: getSellerListingsInternal_def split: sum.splits prod.splits)

lemma getSellerSoldItemsInternal_file:
  "sellersFile (snd (getSellerSoldItemsInternal e sn ssn a w)) = sellersFile w
   \<and> writable (snd (getSellerSoldItemsInternal e sn ssn a w)) = writable w"
proof (cases "soldSite e sn ssn a")
  case (Inl err)
  then show ?thesis by (simp add: getSellerSoldItemsInternal_def)
next
  case (Inr found)
  obtain t firstPage where f: "found = (t, firstPage)" by (cases found)
  obtain items n w' where r: "paginate e sn ssn firstPage [] 1 (elapse 10000 (elapse t w)) = (items, n, w')"
    by (cases "paginate e sn ssn firstPage [] 1 (elapse 10000 (elapse t w))") auto
  have "sellersFile w' = sellersFile w \<and> writable w' = writable w"
    using paginate_file[of e sn ssn firstPage "[]" 1 "elapse 10000 (elapse t w)"] r by simp
  then show ?thesis using Inr f r by (simp add: getSellerSoldItemsInternal_def)
qed

lemma retryLoop_Inr:
  "a \<le> m \<Longrightarrow> fn a w = (Inr v, w') \<Longrightarrow> retryLoop fn m d a w = (Inr (Some v), w')"
  by (subst retryLoop.simps) simp

lemma retryLoop_last: "fn m w = (Inl err, w') \<Longrightarrow> retryLoop fn m d m w = (Inl err, w')"
  by (subst retryLoop.simps) simp

lemma retryLoop_next:
  "a < m \<Longrightarrow> fn a w = (Inl err, w') \<Longrightarrow>
   retryLoop fn m d a w = retryLoop fn m d (Suc a) (sleep (Num d) w')"
  by (subst retryLoop.simps) simp

lemma retryLoop_beyond: "\<not> a \<le> m \<Longrightarrow> retryLoop fn m d a w = (Inr None, w)"
  by (subst retryLoop.simps) simp

lemma retryLoop_file:
  assumes fn: "\<And>a w. sellersFile (snd (fn a w)) = sellersFile w \<and> writable (snd (fn a w)) = writable w"
  shows "sellersFile (snd (retryLoop fn m d a w)) = sellersFile w
         \<and> writable (snd (retryLoop fn m d a w)) = writable w"
  using fn
proof (induction fn m d a w rule: retryLoop.induct)
  case (1 fn m d a w)
  show ?case
  proof (cases "a \<le> m")
    case False
    then show ?thesis by (simp add: retryLoop_beyond)
  next
    case True
    obtain res w' where r: "fn a w = (res, w')" by (cases "fn a w")
    have f: "sellersFile w' = sellersFile w \<and> writable w' = writable w"
      using "1.prems"[of a w] r by simp
    show ?thesis
    proof (cases res)
      case (Inr v)
      then show ?thesis using True r f by (simp add: retryLoop_Inr)
    next
      case (Inl err)
      show ?thesis
      proof (cases "a = m")
        case True
        then show ?thesis using Inl r f by (simp add: retryLoop_last)
      next
        case False
        then have lt: "a < m" using True by simp
        have eq: "retryLoop fn m d a w = retryLoop fn m d (a + 1) (sleep (Num d) w')"
          using retryLoop_next[OF lt, of fn w err w' d] r Inl by simp
        have "sellersFile (snd (retryLoop fn m d (a + 1) (sleep (Num d) w')))
                = sellersFile (sleep (Num d) w')
              \<and> writable (snd (retryLoop fn m d (a + 1) (sleep (Num d) w')))
                = writable (sleep (Num d) w')"
          using "1.IH"[OF True _ _ False "1.prems"] r Inl by simp
        then show ?thesis using eq f by simp
      qed
    qed
  qed
qed

lemma retryOperation_three:
  "retryOperation fn 3 5000 w =
     (case fn 1 w of
        (Inr v, wA) \<Rightarrow> (Inr (Some v), wA)
      | (Inl errA, wA) \<Rightarrow>
          (case fn 2 (sleep (Num 5000) wA) of
             (Inr v, wB) \<Rightarrow> (Inr (Some v), wB)
           | (Inl errB, wB) \<Rightarrow>
               (case fn 3 (sleep (Num 5000) wB) of
                  (Inr v, wC) \<Rightarrow> (Inr (Some v), wC)
                | (Inl errC, wC) \<Rightarrow> (Inl errC, wC))))"
proof -
  obtain ra wA where a: "fn 1 w = (ra, wA)" by (cases "fn 1 w")
  obtain rb wB where b: "fn 2 (sleep (Num 5000) wA) = (rb, wB)"
    by (cases "fn 2 (sleep (Num 5000) wA)")
  obtain rc wC where c: "fn 3 (sleep (Num 5000) wB) = (rc, wC)"
    by (cases "fn 3 (sleep (Num 5000) wB)")
  show ?thesis
  proof (cases ra)
    case (Inr v)
    then show ?thesis
      using retryLoop_Inr[of 1 3 fn w v wA 5000] a by (simp add: retryOperation_def)
  next
    case ea: (Inl errA)
    have sa: "retryLoop fn 3 5000 1 w = retryLoop fn 3 5000 2 (sleep (Num 5000) wA)"
      using retryLoop_next[of 1 3 fn w errA wA 5000] a ea by (simp add: numeral_2_eq_2)
    show ?thesis
    proof (cases rb)
      case (Inr v)
      then show ?thesis
        using retryLoop_Inr[of 2 3 fn "sleep (Num 5000) wA" v wB 5000] a ea b sa
        by (simp add: retryOperation_def)
    next
      case eb: (Inl errB)
      have sb: "retryLoop fn 3 5000 2 (sleep (Num 5000) wA)
                  = retryLoop fn 3 5000 3 (sleep (Num 5000) wB)"
        using retryLoop_next[of 2 3 fn "sleep (Num 5000) wA" errB wB 5000] b eb
        by (simp add: numeral_3_eq_3 numeral_2_eq_2)
      show ?thesis
      proof (cases rc)
        case (Inr v)
        then show ?thesis
          using retryLoop_Inr[of 3 3 fn "sleep (Num 5000) wB" v wC 5000] a ea b eb c sa sb
          by (simp add: retryOperation_def)
      next
        case (Inl errC)
        then show ?thesis
          using retryLoop_last[of fn 3 "sleep (Num 5000) wB" errC wC 5000] a ea b eb c sa sb
          by (simp add: retryOperation_def)
      qed
    qed
  qed
qed

lemma sendWithRateLimit_file [simp]:
  "sellersFile (snd (sendWithRateLimit tn u send m w)) = sellersFile w"
  "writable (snd (sendWithRateLimit tn u send m w)) = writable w"
  by (simp_all add: sendWithRateLimit_def sendLoop_file)

lemma notifyListings_file [simp]:
  "sellersFile (notifyListings e u items w) = sellersFile w"
  "writable (notifyListings e u items w) = writable w"
  by (induction items arbitrary: w; simp add: sendNewListingWebhook_def split: prod.splits;
      metis sendWithRateLimit_file snd_conv)+

lemma notifySoldItems_file [simp]:
  "sellersFile (notifySoldItems e u items w) = sellersFile w"
  "writable (notifySoldItems e u items w) = writable w"
  by (induction items arbitrary: w; simp add: sendSoldItemWebhook_def split: prod.splits;
      metis sendWithRateLimit_file snd_conv)+

lemma updateSeller_found:
  "writable w \<Longrightarrow>
   findIndex (\<lambda>s. (s_ssn s = ssn \<or> s_username s = ssn) \<and> (if type \<noteq> [] then s_type s = type else True))
     (sellersFile w) = Some i \<Longrightarrow>
   updateSeller ssn upd type w = (True, w\<lparr>sellersFile := (sellersFile w)[i := upd (sellersFile w ! i)]\<rparr>)"
  by (simp add: updateSeller_def loadSellers_def saveSellers_def Let_def)



lemma getSellerListings_fields:
  "sellersFile (snd (getSellerListings e sn ssn w)) = sellersFile w
   \<and> writable (snd (getSellerListings e sn ssn w)) = writable w"
  unfolding getSellerListings_def retryOperation_def
  by (rule retryLoop_file) (rule getSellerListingsInternal_file)

lemma getSellerSoldItems_fields:
  "sellersFile (snd (getSellerSoldItems e sn ssn w)) = sellersFile w
   \<and> writable (snd (getSellerSoldItems e sn ssn w)) = writable w"
  unfolding getSellerSoldItems_def retryOperation_def
  by (rule retryLoop_file) (rule getSellerSoldItemsInternal_file)

text \<open>The crawl does not post: the wrappers read the pages only.\<close>

lemma getSellerListings_axiosPost [simp]:
  "getSellerListings (e\<lparr>axiosPost := p\<rparr>) sn ssn w = getSellerListings e sn ssn w"
proof -
  have "getSellerListingsInternal (e\<lparr>axiosPost := p\<rparr>) sn ssn = getSellerListingsInternal e sn ssn"
    by (intro ext) (simp add: getSellerListingsInternal_def split: sum.splits prod.splits)
  then show ?thesis by (simp add: getSellerListings_def)
qed

lemma paginate_axiosPost [simp]:
  "paginate (e\<lparr>axiosPost := p\<rparr>) sn ssn site soldItems pageNum w
     = paginate e sn ssn site soldItems pageNum w"
proof (induction site arbitrary: soldItems pageNum w
    rule: site.induct[where ?P2.0 = "\<lambda>nb. \<forall>t page. nb = Visible t page \<longrightarrow>
            (\<forall>soldItems pageNum w.
               paginate (e\<lparr>axiosPost := p\<rparr>) sn ssn page soldItems pageNum w
                 = paginate e sn ssn page soldItems pageNum w)"])
  case (Page cards nb)
  show ?case
  proof (cases nb)
    case (Visible loadTime nextPage)
    have step: "paginate (e\<lparr>axiosPost := p\<rparr>) sn ssn nextPage s' n' w'
                  = paginate e sn ssn nextPage s' n' w'" for s' n' w'
      using Page Visible by blast
    show ?thesis
      unfolding Visible paginate_Visible using step by simp
  qed (simp_all add: paginate_stop)
qed auto

lemma getSellerSoldItems_axiosPost [simp]:
  "getSellerSoldItems (e\<lparr>axiosPost := p\<rparr>) sn ssn w = getSellerSoldItems e sn ssn w"
proof -
  have "getSellerSoldItemsInternal (e\<lparr>axiosPost := p\<rparr>) sn ssn = getSellerSoldItemsInternal e sn ssn"
    by (intro ext) (simp add: getSellerSoldItemsInternal_def split: sum.splits prod.splits)
  then show ?thesis by (simp add: getSellerSoldItems_def)
qed


lemma getSellerSoldItems_all_fail:
  assumes "soldSite e sn ssn 1 = Inl e1" "soldSite e sn ssn 2 = Inl e2"
    "soldSite e sn ssn 3 = Inl e3"
  shows "getSellerSoldItems e sn ssn w = (Inl e3, sleep (Num 5000) (sleep (Num 5000) w))"
  using assms by (simp add: getSellerSoldItems_def retryOperation_three getSellerSoldItemsInternal_def)

text \<open>The sold crawl of Dana, started at noon or 10 s later.\<close>

lemma soldDana_crawl:
  "1762084800000 \<le> clock w \<Longrightarrow> clock w \<le> 1762084810000 \<Longrightarrow>
   getSellerSoldItems envSold ''shop'' (Some ''dana'') w
     = (Inr (Some [soldItemOf ''333'' ''Sold  Nov 2, 2025'', soldItemOf ''334'' ''Sold  Nov 1, 2025'',
                   soldItemOf ''335'' ''Sold  Nov 1, 2025'']), w\<lparr>clock := clock w + 13500\<rparr>)"
  using soldPages_crawl[of "elapse 10000 (elapse 1500 w)"]
  by (simp add: getSellerSoldItems_def getSellerSoldItemsInternal_def retryOperation_def
      retryLoop_Inr envSold_fields elapse_def)

lemma soldErin_crawl:
  "getSellerSoldItems envSold ''mart'' (Some ''erin'') w
     = (Inl (Error ''net::ERR_TIMED_OUT''), sleep (Num 5000) (sleep (Num 5000) w))"
  by (rule getSellerSoldItems_all_fail) (simp_all add: envSold_fields)

subsection \<open>The monitoring cycle\<close>

lemma checkListingSeller_no_new:
  assumes "getSellerListings e (s_storeName seller) (js_or (s_ssn seller) (s_username seller)) w
             = (Inr (Some listings), w1)"
    and "newListings (knownListings seller) listings = []"
  shows "checkListingSeller e url seller w = (Inr (), sleep (Num 5000) w1)"
  using assms by (simp add: checkListingSeller_def Let_def)

lemma checkListingSeller_new:
  assumes "getSellerListings e (s_storeName seller) (js_or (s_ssn seller) (s_username seller)) w
             = (Inr (Some listings), w1)"
    and "newListings (knownListings seller) listings \<noteq> []"
    and "writable w"
    and "findIndex (\<lambda>s. (s_ssn s = js_or (s_ssn seller) (s_username seller)
                          \<or> s_username s = js_or (s_ssn seller) (s_username seller))
                         \<and> s_type s = ''listings'') (sellersFile w) = Some i"
  shows "sellersFile (snd (checkListingSeller e url seller w)) =
           (sellersFile w)[i := (sellersFile w ! i)
              \<lparr>knownListings := Some (updatedKnownListings (knownListings seller)
                                       (newListings (knownListings seller) listings)),
               lastCheckedListings := Some (clock (notifyListings e url
                                       (newListings (knownListings seller) listings) w1))\<rparr>]"
proof -
  have f: "sellersFile w1 = sellersFile w" "writable w1 = writable w"
    using getSellerListings_fields[of e "s_storeName seller" "js_or (s_ssn seller) (s_username seller)" w]
      assms(1) by simp_all
  let ?new = "newListings (knownListings seller) listings"
  let ?w2 = "notifyListings e url ?new w1"
  have w2: "sellersFile ?w2 = sellersFile w" "writable ?w2" using f assms(3) by simp_all
  have idx: "findIndex (\<lambda>s. (s_ssn s = js_or (s_ssn seller) (s_username seller)
                          \<or> s_username s = js_or (s_ssn seller) (s_username seller))
                         \<and> (if ''listings'' \<noteq> [] then s_type s = ''listings'' else True)) (sellersFile ?w2) = Some i"
    using assms(4) w2 by simp
  show ?thesis
    using assms(1,2) updateSeller_found[OF w2(2) idx] w2
    by (simp add: checkListingSeller_def Let_def)
qed


lemma checkSoldSeller_no_new:
  assumes "getSellerSoldItems e (s_storeName seller) (js_or (s_ssn seller) (s_username seller)) w
             = (Inr (Some soldItems), w1)"
    and "newSoldItems (knownSoldItems seller) soldItems = []"
  shows "checkSoldSeller e url seller w = (Inr (), sleep (Num 5000) w1)"
  using assms by (simp add: checkSoldSeller_def Let_def)

lemma checkSoldSeller_new:
  assumes "getSellerSoldItems e (s_storeName seller) (js_or (s_ssn seller) (s_username seller)) w
             = (Inr (Some soldItems), w1)"
    and "newSoldItems (knownSoldItems seller) soldItems \<noteq> []"
    and "writable w"
    and "findIndex (\<lambda>s. (s_ssn s = js_or (s_ssn seller) (s_username seller)
                          \<or> s_username s = js_or (s_ssn seller) (s_username seller))
                         \<and> s_type s = ''sold'') (sellersFile w) = Some i"
  shows "sellersFile (snd (checkSoldSeller e url seller w)) =
           (sellersFile w)[i := (sellersFile w ! i)
              \<lparr>knownSoldItems := Some (updatedKnownSoldItems (knownSoldItems seller)
                                       (newSoldItems (knownSoldItems seller) soldItems)),
               lastCheckedSold := Some (clock (notifySoldItems e url
                                       (newSoldItems (knownSoldItems seller) soldItems) w1))\<rparr>]"
proof -
  have f: "sellersFile w1 = sellersFile w" "writable w1 = writable w"
    using getSellerSoldItems_fields[of e "s_storeName seller" "js_or (s_ssn seller) (s_username seller)" w]
      assms(1) by simp_all
  let ?new = "newSoldItems (knownSoldItems seller) soldItems"
  let ?w2 = "notifySoldItems e url ?new w1"
  have w2: "sellersFile ?w2 = sellersFile w" "writable ?w2" using f assms(3) by simp_all
  have idx: "findIndex (\<lambda>s. (s_ssn s = js_or (s_ssn seller) (s_username seller)
                          \<or> s_username s = js_or (s_ssn seller) (s_username seller))
                         \<and> (if ''sold'' \<noteq> [] then s_type s = ''sold'' else True)) (sellersFile ?w2) = Some i"
    using assms(4) w2 by simp
  show ?thesis
    using assms(1,2) updateSeller_found[OF w2(2) idx] w2
    by (simp add: checkSoldSeller_def Let_def)
qed






text \<open>Evaluation of a cycle on the concrete inputs.\<close>

lemmas cycle_ev = monitorSellers_def getAllSellers_def loadSellers_def checkListingSeller_def
  checkSoldSeller_def getSellerListings_def getSellerListingsInternal_def
  retryOperation_def retryLoop.simps elapse_def newListings_def newSoldItems_def orEmpty_def
  updatedKnownListings_def updatedKnownSoldItems_def sendNewListingWebhook_def
  sendSoldItemWebhook_def sendWithRateLimit_def sendLoop.simps attemptOnce_def waitForReset_def
  updateSeller_def saveSellers_def js_or_def Let_def
  item111_def item222_def sellerAlice_def sellerBob_def sellerCarol_def sellerDana_def sellerErin_def
  envDown_def cfgListings_def worldAlice_def worldCarol_def worldTwo_def worldDana_def
  worldNoon_def worldReadOnly_def world0_def
  soldDana_crawl soldErin_crawl envSold_fields soldItemOf_def




text \<open>
  C4, as stated, fails: the crawl of Carol succeeds and finds only the known item 111;
  the cycle ends 5 s later with the file as it was, \<open>lastCheckedListings\<close> still
  \<open>null\<close>.
\<close>

theorem C4_counterexample:
  "getSellerListings envDown ''shop'' (Some ''carol'') worldCarol
     = (Inr (Some [item111]), worldCarol\<lparr>clock := 9500\<rparr>)
   \<and> newListings (knownListings sellerCarol) [item111] = []
   \<and> lastCheckedListings sellerCarol = None
   \<and> sellersFile (monitorSellers cfgListings envDown worldCarol) = [sellerCarol]
   \<and> clock (monitorSellers cfgListings envDown worldCarol) = 14500"
  by (simp add: cycle_ev)

text \<open>
  C4, amended. After a crawl that succeeded with no new item the file is left as it was.
  After a crawl that succeeded with at least one new item, when the record is still in
  the file and the file can be written, the record holds the known ids followed by the
  ids of the new items, and its \<open>lastChecked\<close> stamp is the time after the last
  notification of that seller; nothing else in the file changes. The same holds on the
  sold path.
\<close>

theorem C4_persist_only_with_new_items:
  "(getSellerListings e (s_storeName seller) (js_or (s_ssn seller) (s_username seller)) w
       = (Inr (Some listings), wCrawled) \<longrightarrow>
      (newListings (knownListings seller) listings = [] \<longrightarrow>
         sellersFile (snd (checkListingSeller e url seller w)) = sellersFile w)
      \<and> (newListings (knownListings seller) listings \<noteq> [] \<and> writable w
          \<and> findIndex (\<lambda>s. (s_ssn s = js_or (s_ssn seller) (s_username seller)
                                \<or> s_username s = js_or (s_ssn seller) (s_username seller))
                               \<and> s_type s = ''listings'') (sellersFile w) = Some i \<longrightarrow>
         sellersFile (snd (checkListingSeller e url seller w)) =
           (sellersFile w)[i := (sellersFile w ! i)
              \<lparr>knownListings := Some (updatedKnownListings (knownListings seller)
                                       (newListings (knownListings seller) listings)),
               lastCheckedListings := Some (clock (notifyListings e url
                                       (newListings (knownListings seller) listings) wCrawled))\<rparr>]))
   \<and> (getSellerSoldItems e (s_storeName seller) (js_or (s_ssn seller) (s_username seller)) w
       = (Inr (Some soldItems), wSold) \<longrightarrow>
      (newSoldItems (knownSoldItems seller) soldItems = [] \<longrightarrow>
         sellersFile (snd (checkSoldSeller e url seller w)) = sellersFile w)
      \<and> (newSoldItems (knownSoldItems seller) soldItems \<noteq> [] \<and> writable w
          \<and> findIndex (\<lambda>s. (s_ssn s = js_or (s_ssn seller) (s_username seller)
                                \<or> s_username s = js_or (s_ssn seller) (s_username seller))
                               \<and> s_type s = ''sold'') (sellersFile w) = Some j \<longrightarrow>
         sellersFile (snd (checkSoldSeller e url seller w)) =
           (sellersFile w)[j := (sellersFile w ! j)
              \<lparr>knownSoldItems := Some (updatedKnownSoldItems (knownSoldItems seller)
                                       (newSoldItems (knownSoldItems seller) soldItems)),
               lastCheckedSold := Some (clock (notifySoldItems e url
                                       (newSoldItems (knownSoldItems seller) soldItems) wSold))\<rparr>]))"
proof (intro conjI impI)
  assume c: "getSellerListings e (s_storeName seller) (js_or (s_ssn seller) (s_username seller)) w
       = (Inr (Some listings), wCrawled)"
  then have f: "sellersFile wCrawled = sellersFile w"
    using getSellerListings_fields[of e "s_storeName seller" "js_or (s_ssn seller) (s_username seller)" w]
    by simp
  { assume "newListings (knownListings seller) listings = []"
    then show "sellersFile (snd (checkListingSeller e url seller w)) = sellersFile w"
      using checkListingSeller_no_new[OF c] f by simp }
  { assume "newListings (knownListings seller) listings \<noteq> [] \<and> writable w
          \<and> findIndex (\<lambda>s. (s_ssn s = js_or (s_ssn seller) (s_username seller)
                                \<or> s_username s = js_or (s_ssn seller) (s_username seller))
                               \<and> s_type s = ''listings'') (sellersFile w) = Some i"
    then show "sellersFile (snd (checkListingSeller e url seller w)) =
           (sellersFile w)[i := (sellersFile w ! i)
              \<lparr>knownListings := Some (updatedKnownListings (knownListings seller)
                                       (newListings (knownListings seller) listings)),
               lastCheckedListings := Some (clock (notifyListings e url
                                       (newListings (knownListings seller) listings) wCrawled))\<rparr>]"
      using checkListingSeller_new[OF c] by blast }
next
  assume c: "getSellerSoldItems e (s_storeName seller) (js_or (s_ssn seller) (s_username seller)) w
       = (Inr (Some soldItems), wSold)"
  then have f: "sellersFile wSold = sellersFile w"
    using getSellerSoldItems_fields[of e "s_storeName seller" "js_or (s_ssn seller) (s_username seller)" w]
    by simp
  { assume "newSoldItems (knownSoldItems seller) soldItems = []"
    then show "sellersFile (snd (checkSoldSeller e url seller w)) = sellersFile w"
      using checkSoldSeller_no_new[OF c] f by simp }
  { assume "newSoldItems (knownSoldItems seller) soldItems \<noteq> [] \<and> writable w
          \<and> findIndex (\<lambda>s. (s_ssn s = js_or (s_ssn seller) (s_username seller)
                                \<or> s_username s = js_or (s_ssn seller) (s_username seller))
                               \<and> s_type s = ''sold'') (sellersFile w) = Some j"
    then show "sellersFile (snd (checkSoldSeller e url seller w)) =
           (sellersFile w)[j := (sellersFile w ! j)
              \<lparr>knownSoldItems := Some (updatedKnownSoldItems (knownSoldItems seller)
                                       (newSoldItems (knownSoldItems seller) soldItems)),
               lastCheckedSold := Some (clock (notifySoldItems e url
                                       (newSoldItems (knownSoldItems seller) soldItems) wSold))\<rparr>]"
      using checkSoldSeller_new[OF c] by blast }
qed

theorem C4_witness:
  "sellersFile (snd (checkListingSeller envDown ''hook'' sellerCarol worldCarol)) = [sellerCarol]
   \<and> sellersFile (snd (checkListingSeller envDown ''hook'' sellerAlice worldAlice))
       = [sellerAlice\<lparr>knownListings := Some [''111'', ''222''], lastCheckedListings := Some 12000\<rparr>]
   \<and> sellersFile (snd (checkSoldSeller envSold ''hook'' sellerDana worldDana))
       = [sellerDana\<lparr>knownSoldItems := Some [''333'', ''334'', ''335''],
                      lastCheckedSold := Some 1762084818500\<rparr>]"
  using C4_persist_only_with_new_items
          [where e = envDown and seller = sellerCarol and w = worldCarol and url = "''hook''"
             and listings = "[item111]" and wCrawled = "worldCarol\<lparr>clock := 9500\<rparr>"]
        C4_persist_only_with_new_items
          [where e = envDown and seller = sellerAlice and w = worldAlice and url = "''hook''"
             and listings = "[item111, item222]" and wCrawled = "worldAlice\<lparr>clock := 9500\<rparr>"
             and i = 0]
        C4_persist_only_with_new_items
          [where e = envSold and seller = sellerDana and w = worldDana and url = "''hook''"
             and soldItems = "[soldItemOf ''333'' ''Sold  Nov 2, 2025'',
                               soldItemOf ''334'' ''Sold  Nov 1, 2025'',
                               soldItemOf ''335'' ''Sold  Nov 1, 2025'']"
             and wSold = "worldDana\<lparr>clock := 1762084813500\<rparr>" and j = 0]
  by (simp add: cycle_ev)



subsection \<open>The scheduler\<close>

lemma run_append: "run (xs @ ys) s = run ys (run xs s)"
  by (induction xs arbitrary: s) simp_all

lemma run_triggers:
  "run (replicate n TriggerMonitoringRestart) s = s\<lparr>timeouts := timeouts s + n\<rparr>"
  by (induction n arbitrary: s) simp_all

lemma run_timeouts:
  "active s \<Longrightarrow> n \<le> timeouts s \<Longrightarrow>
   run (replicate n TimeoutFires) s = s\<lparr>timeouts := timeouts s - n, inProgress := inProgress s + n\<rparr>"
proof (induction n arbitrary: s)
  case 0
  then show ?case by simp
next
  case (Suc n)
  have "fire TimeoutFires s = s\<lparr>timeouts := timeouts s - 1, inProgress := inProgress s + 1\<rparr>"
    using Suc.prems by (simp add: callMonitorSellers_def)
  then show ?case using Suc by (simp add: callMonitorSellers_def)
qed

text \<open>
  C9, as stated, fails: \<open>startMonitoring\<close> starts a cycle; a change of the sellers
  calls \<open>triggerMonitoringRestart\<close>; its timeout fires 2 s later, while the first
  cycle is still in one of its waits (a cycle over one seller waits 8 s for the page
  alone), and starts a second cycle: two cycles are in progress.
\<close>

theorem C9_counterexample:
  "inProgress (run [StartMonitoring] scheduler0) = 1
   \<and> inProgress (run [StartMonitoring, TriggerMonitoringRestart, TimeoutFires] scheduler0) = 2"
  by (simp add: scheduler0_def callMonitorSellers_def)

text \<open>
  C9, amended. While \<open>monitoringActive\<close> is set, the firing of a timeout of
  \<open>triggerMonitoringRestart\<close> or of the interval starts a cycle whatever the number of
  cycles in progress; \<open>n\<close> triggers whose timeouts fire during the first cycle leave
  \<open>n + 1\<close> cycles in progress.
\<close>

theorem C9_cycles_overlap:
  "(active s \<and> 0 < timeouts s \<longrightarrow> inProgress (fire TimeoutFires s) = inProgress s + 1)
   \<and> (active s \<and> intervalSet s \<longrightarrow> inProgress (fire IntervalFires s) = inProgress s + 1)
   \<and> inProgress (run (StartMonitoring # replicate n TriggerMonitoringRestart
                        @ replicate n TimeoutFires) scheduler0) = n + 1"
  by (simp add: run_append run_triggers run_timeouts callMonitorSellers_def scheduler0_def)

theorem C9_witness:
  "inProgress (fire TimeoutFires (run [StartMonitoring, TriggerMonitoringRestart] scheduler0)) = 2
   \<and> inProgress (fire IntervalFires (run [StartMonitoring] scheduler0)) = 2"
  using C9_cycles_overlap [where s = "run [StartMonitoring, TriggerMonitoringRestart] scheduler0"]
        C9_cycles_overlap [where s = "run [StartMonitoring] scheduler0"]
  by (simp add: scheduler0_def callMonitorSellers_def)

end
